theory Spec2Isabelle
  imports Complex_Main
begin

section \<open>The attribute tree\<close>

text \<open>
  The passes of \<^verbatim>\<open>binary_plan.go\<close> work on a \<^verbatim>\<open>*simplejson.Json\<close> value: a decoded JSON
  document whose numbers are kept as their text (the decoder runs with \<^verbatim>\<open>UseNumber\<close>).
  An object is an association list (first binding of a key wins, \<^verbatim>\<open>Set\<close> replaces it in
  place). \<open>JNull\<close> is the nil interface value, which a decoded \<^verbatim>\<open>null\<close> and a missing
  key give. \<open>JNilJson\<close> is a nil \<^verbatim>\<open>*simplejson.Json\<close> stored as a value in the tree: it
  marshals to \<^verbatim>\<open>null\<close>, but in memory it is a typed pointer, which no accessor takes for
  a string, an array or an object, and which \<^verbatim>\<open>StringArray\<close> does not take for nil.
\<close>

datatype json =
    JNull
  | JBool bool
  | JNum string
  | JStr string
  | JArr "json list"
  | JObj "(string \<times> json) list"
  | JNilJson

text \<open>\<^verbatim>\<open>Get\<close>: the value under a key of an object; a wrapper of nil for anything else.\<close>

definition Get :: "json \<Rightarrow> string \<Rightarrow> json" where
  "Get j key =
     (case j of
        JObj kvs \<Rightarrow> (case map_of kvs key of Some v \<Rightarrow> v | None \<Rightarrow> JNull)
      | _ \<Rightarrow> JNull)"

fun GetPath :: "json \<Rightarrow> string list \<Rightarrow> json" where
  "GetPath j [] = j"
| "GetPath j (k # ks) = GetPath (Get j k) ks"

definition MustString :: "json \<Rightarrow> string" where
  "MustString j = (case j of JStr s \<Rightarrow> s | _ \<Rightarrow> [])"

definition MustArray :: "json \<Rightarrow> json list" where
  "MustArray j = (case j of JArr xs \<Rightarrow> xs | _ \<Rightarrow> [])"

text \<open>
  \<^verbatim>\<open>StringArray\<close> turns a nil element into the empty string and fails on any other element
  that is not a string; \<^verbatim>\<open>MustStringArray\<close> turns the failure into the empty list.
\<close>

fun stringElems :: "json list \<Rightarrow> string list option" where
  "stringElems [] = Some []"
| "stringElems (JNull # xs) = map_option ((#) []) (stringElems xs)"
| "stringElems (JStr s # xs) = map_option ((#) s) (stringElems xs)"
| "stringElems (_ # xs) = None"

definition MustStringArray :: "json \<Rightarrow> string list" where
  "MustStringArray j =
     (case j of
        JArr xs \<Rightarrow> (case stringElems xs of Some ss \<Rightarrow> ss | None \<Rightarrow> [])
      | _ \<Rightarrow> [])"

text \<open>\<^verbatim>\<open>Set\<close> writes a key of an object and does nothing to any other value.\<close>

fun upd :: "string \<Rightarrow> json \<Rightarrow> (string \<times> json) list \<Rightarrow> (string \<times> json) list" where
  "upd k v [] = [(k, v)]"
| "upd k v (p # ps) = (if fst p = k then (k, v) # ps else p # upd k v ps)"

definition Set :: "string \<Rightarrow> json \<Rightarrow> json \<Rightarrow> json" where
  "Set key v j = (case j of JObj kvs \<Rightarrow> JObj (upd key v kvs) | _ \<Rightarrow> j)"

text \<open>
  The passes change the children of a node in place, through the pointers that
  \<^verbatim>\<open>Get\<close> and \<^verbatim>\<open>GetIndex\<close> hand out. \<open>putBack\<close> stores the changed value under the key it
  was read from; a value read from a missing key, or from something that is not an object,
  was a fresh wrapper of nil, and nothing is stored.
\<close>

definition putBack :: "string \<Rightarrow> json \<Rightarrow> json \<Rightarrow> json" where
  "putBack key v j =
     (case j of
        JObj kvs \<Rightarrow> (if map_of kvs key = None then j else JObj (upd key v kvs))
      | _ \<Rightarrow> j)"

abbreviation MainTree :: string where "MainTree \<equiv> ''main''"
abbreviation CteTrees :: string where "CteTrees \<equiv> ''ctes''"
abbreviation Children :: string where "Children \<equiv> ''children''"
abbreviation Duration :: string where "Duration \<equiv> ''duration''"
abbreviation Time :: string where "Time \<equiv> ''time''"
abbreviation Diagnosis :: string where "Diagnosis \<equiv> ''diagnosis''"
abbreviation RootGroupExecInfo :: string where "RootGroupExecInfo \<equiv> ''rootGroupExecInfo''"
abbreviation RootBasicExecInfo :: string where "RootBasicExecInfo \<equiv> ''rootBasicExecInfo''"
abbreviation OperatorInfo :: string where "OperatorInfo \<equiv> ''operatorInfo''"
abbreviation OperatorName :: string where "OperatorName \<equiv> ''name''"
abbreviation CopExecInfo :: string where "CopExecInfo \<equiv> ''copExecInfo''"
abbreviation CacheHitRatio :: string where "CacheHitRatio \<equiv> ''cacheHitRatio''"
abbreviation TaskType :: string where "TaskType \<equiv> ''taskType''"
abbreviation StoreType :: string where "StoreType \<equiv> ''storeType''"
abbreviation DiskBytes :: string where "DiskBytes \<equiv> ''diskBytes''"
abbreviation MemoryBytes :: string where "MemoryBytes \<equiv> ''memoryBytes''"
abbreviation ActRows :: string where "ActRows \<equiv> ''actRows''"
abbreviation EstRows :: string where "EstRows \<equiv> ''estRows''"
abbreviation DriverSide :: string where "DriverSide \<equiv> ''driverSide''"
abbreviation ScanObject :: string where "ScanObject \<equiv> ''scanObject''"

section \<open>Byte strings\<close>

text \<open>
  Go strings are byte sequences, as \<open>string\<close> is here. The functions of package
  \<^verbatim>\<open>strings\<close> that the code calls with ASCII arguments work on bytes alone and are
  written out; the separators the code passes are never empty.
\<close>

definition hasPrefix :: "string \<Rightarrow> string \<Rightarrow> bool" where
  "hasPrefix s p = (take (length p) s = p)"

definition hasSuffix :: "string \<Rightarrow> string \<Rightarrow> bool" where
  "hasSuffix s p = (length p \<le> length s \<and> drop (length s - length p) s = p)"

text \<open>\<^verbatim>\<open>strings.Index\<close>: the position of the first occurrence.\<close>

fun index :: "string \<Rightarrow> string \<Rightarrow> nat option" where
  "index [] sep = (if sep = [] then Some 0 else None)"
| "index (c # s) sep =
     (if hasPrefix (c # s) sep then Some 0 else map_option Suc (index s sep))"

definition contains :: "string \<Rightarrow> string \<Rightarrow> bool" where
  "contains s sub = (index s sub \<noteq> None)"

text \<open>\<^verbatim>\<open>strings.Count\<close> of a non-empty separator: occurrences that do not overlap.\<close>

function count :: "string \<Rightarrow> string \<Rightarrow> nat" where
  "count s sep =
     (if sep = [] then length s + 1
      else if s = [] then 0
      else if hasPrefix s sep then Suc (count (drop (length sep) s) sep)
      else count (tl s) sep)"
  by pat_completeness auto
termination
  by (relation "measure (\<lambda>(s, sep). length s)") auto

declare count.simps [simp del]

text \<open>The \<^verbatim>\<open>cut\<close> of the source (Go 1.18's \<^verbatim>\<open>strings.Cut\<close>).\<close>

definition cut :: "string \<Rightarrow> string \<Rightarrow> string \<times> string \<times> bool" where
  "cut s sep =
     (case index s sep of
        Some i \<Rightarrow> (take i s, drop (i + length sep) s, True)
      | None \<Rightarrow> (s, [], False))"

text \<open>\<^verbatim>\<open>strings.Split\<close> at a one-byte separator; the result is never empty.\<close>

fun split :: "string \<Rightarrow> char \<Rightarrow> string list" where
  "split [] sep = [[]]"
| "split (c # s) sep =
     (if c = sep then [] # split s sep
      else (case split s sep of x # xs \<Rightarrow> (c # x) # xs | [] \<Rightarrow> [[c]]))"

text \<open>\<^verbatim>\<open>strings.TrimRight\<close> and \<^verbatim>\<open>strings.TrimLeft\<close> with an ASCII cutset.\<close>

definition trimLeft :: "string \<Rightarrow> string \<Rightarrow> string" where
  "trimLeft s cutset = dropWhile (\<lambda>c. c \<in> set cutset) s"

definition trimRight :: "string \<Rightarrow> string \<Rightarrow> string" where
  "trimRight s cutset = rev (dropWhile (\<lambda>c. c \<in> set cutset) (rev s))"

text \<open>\<^verbatim>\<open>strings.ReplaceAll\<close> of a non-empty text, left to right.\<close>

function replaceAll :: "string \<Rightarrow> string \<Rightarrow> string \<Rightarrow> string" where
  "replaceAll s old new =
     (if old = [] \<or> s = [] then s
      else if hasPrefix s old then new @ replaceAll (drop (length old) s) old new
      else hd s # replaceAll (tl s) old new)"
  by pat_completeness auto
termination
  by (relation "measure (\<lambda>(s, old, new). length s)") auto

declare replaceAll.simps [simp del]

section \<open>Machine integers\<close>

text \<open>
  Go's \<^verbatim>\<open>int\<close> is a 64-bit two's complement number: products wrap around, division
  truncates towards zero and panics on a zero divisor.
\<close>

definition wrap64 :: "int \<Rightarrow> int" where
  "wrap64 x = (x + 2 ^ 63) mod 2 ^ 64 - 2 ^ 63"

definition mul64 :: "int \<Rightarrow> int \<Rightarrow> int" where
  "mul64 a b = wrap64 (a * b)"

definition quot64 :: "int \<Rightarrow> int \<Rightarrow> int" where
  "quot64 a b = wrap64 (sgn a * sgn b * (\<bar>a\<bar> div \<bar>b\<bar>))"

text \<open>
  \<^verbatim>\<open>strconv.Atoi\<close> with its error dropped, as every call in the source does
  (\<^verbatim>\<open>n, _ := strconv.Atoi(s)\<close>): an optional sign and decimal digits give the number,
  clamped to the 64-bit range; any other text gives 0.
\<close>

definition isDigit :: "char \<Rightarrow> bool" where
  "isDigit c = (48 \<le> (of_char c :: nat) \<and> (of_char c :: nat) \<le> 57)"

fun digitsValue :: "nat \<Rightarrow> string \<Rightarrow> nat" where
  "digitsValue acc [] = acc"
| "digitsValue acc (c # cs) = digitsValue (acc * 10 + (of_char c - 48)) cs"

definition atoi :: "string \<Rightarrow> int" where
  "atoi s =
     (let neg = (s \<noteq> [] \<and> hd s = CHR ''-'');
          ds = (if s \<noteq> [] \<and> (hd s = CHR ''-'' \<or> hd s = CHR ''+'') then tl s else s)
      in if ds = [] \<or> \<not> list_all isDigit ds then 0
         else (let v = int (digitsValue 0 ds)
               in if neg then max (- v) (- (2 ^ 63)) else min v (2 ^ 63 - 1)))"

section \<open>Operator kinds\<close>

datatype operator =
    Default
  | IndexJoin
  | IndexMergeJoin
  | IndexHashJoin
  | Apply
  | Shuffle
  | ShuffleReceiver
  | IndexLookUpReader
  | IndexMergeReader
  | IndexFullScan
  | IndexRangeScan
  | TableFullScan
  | TableRangeScan
  | TableRowIDScan
  | Selection

definition operatorOfName :: "string \<Rightarrow> operator" where
  "operatorOfName name =
     (if hasPrefix name ''IndexJoin'' then IndexJoin
      else if hasPrefix name ''IndexMergeJoin'' then IndexMergeJoin
      else if hasPrefix name ''IndexHashJoin'' then IndexHashJoin
      else if hasPrefix name ''Apply'' then Apply
      else if hasPrefix name ''Shuffle'' \<and> \<not> contains name ''ShuffleReceiver'' then Shuffle
      else if hasPrefix name ''ShuffleReceiver'' then ShuffleReceiver
      else if hasPrefix name ''IndexLookUp'' then IndexLookUpReader
      else if hasPrefix name ''IndexMerge'' then IndexMergeReader
      else if hasPrefix name ''IndexFullScan'' then IndexFullScan
      else if hasPrefix name ''IndexRangeScan'' then IndexRangeScan
      else if hasPrefix name ''TableFullScan'' then TableFullScan
      else if hasPrefix name ''TableRangeScan'' then TableRangeScan
      else if hasPrefix name ''TableRowIDScan'' then TableRowIDScan
      else if hasPrefix name ''Selection'' then Selection
      else Default)"

definition getOperatorType :: "json \<Rightarrow> operator" where
  "getOperatorType node = operatorOfName (MustString (Get node OperatorName))"

section \<open>Failures\<close>

text \<open>
  \<open>ParseError\<close> is the error value that \<^verbatim>\<open>strconv.ParseFloat\<close> gives and the passes return.
  The other three are run-time panics: an index out of range, an integer division by zero,
  a method called through a nil \<^verbatim>\<open>*simplejson.Json\<close>.
\<close>

datatype failure = ParseError | IndexOutOfRange | DivideByZero | NilDereference

section \<open>Library functions taken as given\<close>

text \<open>
  The code calls library functions whose results depend on Unicode tables, on IEEE 754
  rounding or on a whole parser. They are parameters of the model, collected in one
  record, and every theorem below that mentions \<open>L\<close> holds for each choice of them:
  \<^item> \<open>toLower\<close>, \<open>trimSpace\<close>: \<^verbatim>\<open>strings.ToLower\<close>, \<^verbatim>\<open>strings.TrimSpace\<close>;
  \<^item> \<open>parseDuration\<close>: \<^verbatim>\<open>time.ParseDuration\<close>, \<open>None\<close> for an error, nanoseconds otherwise;
  \<^item> \<open>durationString\<close>: \<^verbatim>\<open>time.Duration.String\<close>;
  \<^item> \<open>parseFloat\<close>: \<^verbatim>\<open>strconv.ParseFloat(s, 64)\<close>, \<open>None\<close> for an error;
  \<^item> \<open>'f\<close> is the type \<^verbatim>\<open>float64\<close>; \<open>ofRat\<close> converts a constant or an integer to it,
    \<open>toInt\<close> is the conversion to \<^verbatim>\<open>int\<close> or \<^verbatim>\<open>time.Duration\<close>, and \<open>fdiv\<close>, \<open>fmul\<close>,
    \<open>fsub\<close>, \<open>feq\<close>, \<open>fless\<close> are its \<^verbatim>\<open>/\<close>, \<^verbatim>\<open>*\<close>, \<^verbatim>\<open>-\<close>, \<^verbatim>\<open>==\<close> and \<^verbatim>\<open><\<close>;
  \<^item> \<open>newJson\<close>: \<^verbatim>\<open>simplejson.NewJson\<close>, \<open>None\<close> for an error.
\<close>

record 'f golib =
  toLower :: "string \<Rightarrow> string"
  trimSpace :: "string \<Rightarrow> string"
  parseDuration :: "string \<Rightarrow> int option"
  durationString :: "int \<Rightarrow> string"
  parseFloat :: "string \<Rightarrow> 'f option"
  ofRat :: "rat \<Rightarrow> 'f"
  toInt :: "'f \<Rightarrow> int"
  fdiv :: "'f \<Rightarrow> 'f \<Rightarrow> 'f"
  fmul :: "'f \<Rightarrow> 'f \<Rightarrow> 'f"
  fsub :: "'f \<Rightarrow> 'f \<Rightarrow> 'f"
  feq :: "'f \<Rightarrow> 'f \<Rightarrow> bool"
  fless :: "'f \<Rightarrow> 'f \<Rightarrow> bool"
  newJson :: "string \<Rightarrow> json option"

definition ofInt :: "'f golib \<Rightarrow> int \<Rightarrow> 'f" where
  "ofInt L i = ofRat L (of_int i)"

definition MustFloat64 :: "'f golib \<Rightarrow> json \<Rightarrow> 'f" where
  "MustFloat64 L j =
     (case j of
        JNum s \<Rightarrow> (case parseFloat L s of Some x \<Rightarrow> x | None \<Rightarrow> ofRat L 0)
      | _ \<Rightarrow> ofRat L 0)"

section \<open>The concurrency resolver\<close>

record concurrency =
  joinConcurrency :: int
  copConcurrency :: int
  tableConcurrency :: int
  applyConcurrency :: int
  shuffleConcurrency :: int

definition newConcurrency :: concurrency where
  "newConcurrency =
     \<lparr>joinConcurrency = 1, copConcurrency = 1, tableConcurrency = 1,
      applyConcurrency = 1, shuffleConcurrency = 1\<rparr>"

text \<open>The \<^verbatim>\<open>switch operator\<close> of one round of the loop of \<^verbatim>\<open>getConcurrency\<close>.\<close>

definition kindConcurrency :: "operator \<Rightarrow> json \<Rightarrow> concurrency \<Rightarrow> failure + concurrency" where
  "kindConcurrency operator entry c =
     (if operator = IndexJoin \<or> operator = IndexMergeJoin \<or> operator = IndexHashJoin then
        (let tmpJoinConcurrency = atoi (MustString (GetPath entry [''inner'', ''concurrency'']));
             joinTaskCount = atoi (MustString (GetPath entry [''inner'', ''task'']));
             tmpJoinConcurrency =
               (if joinTaskCount < tmpJoinConcurrency then joinTaskCount else tmpJoinConcurrency)
         in if 0 < tmpJoinConcurrency
            then Inr (c\<lparr>joinConcurrency := mul64 tmpJoinConcurrency (joinConcurrency c)\<rparr>)
            else Inr c)
      else if operator = Apply then
        (let tmpApplyConcurrency = atoi (MustString (GetPath entry [''Concurrency'']))
         in if 0 < tmpApplyConcurrency
            then Inr (c\<lparr>applyConcurrency := mul64 tmpApplyConcurrency (applyConcurrency c)\<rparr>)
            else Inr c)
      else if operator = IndexLookUpReader \<or> operator = IndexMergeReader then
        (let tmpTableConcurrency = atoi (MustString (GetPath entry [''table_task'', ''concurrency'']));
             tableTaskNum = atoi (MustString (GetPath entry [''table_task'', ''num'']))
         in if joinConcurrency c = 0 then Inl DivideByZero
            else
              (let tableTaskNum = quot64 tableTaskNum (joinConcurrency c);
                   tmpTableConcurrency =
                     (if tableTaskNum < tmpTableConcurrency then tableTaskNum
                      else tmpTableConcurrency)
               in if 0 < tmpTableConcurrency
                  then Inr (c\<lparr>tableConcurrency := mul64 tmpTableConcurrency (copConcurrency c)\<rparr>)
                  else Inr c))
      else if operator = Shuffle then
        (let tmpSuffleConcurrency = atoi (MustString (Get entry ''ShuffleConcurrency''))
         in if 0 < tmpSuffleConcurrency
            then Inr (c\<lparr>shuffleConcurrency := mul64 tmpSuffleConcurrency (shuffleConcurrency c)\<rparr>)
            else Inr c)
      else Inr c)"

text \<open>The coprocessor concurrency, multiplied in for every kind of operator.\<close>

definition copStep :: "json \<Rightarrow> concurrency \<Rightarrow> concurrency" where
  "copStep entry c =
     (let tmpCopConcurrency = atoi (MustString (GetPath entry [''cop_task'', ''distsql_concurrency'']))
      in if 0 < tmpCopConcurrency
         then c\<lparr>copConcurrency := mul64 tmpCopConcurrency (copConcurrency c)\<rparr>
         else c)"

fun concurrencyLoop :: "operator \<Rightarrow> json list \<Rightarrow> concurrency \<Rightarrow> failure + concurrency" where
  "concurrencyLoop operator [] c = Inr c"
| "concurrencyLoop operator (entry # entries) c =
     (case kindConcurrency operator entry c of
        Inl f \<Rightarrow> Inl f
      | Inr c1 \<Rightarrow> concurrencyLoop operator entries (copStep entry c1))"

definition getConcurrency :: "json \<Rightarrow> operator \<Rightarrow> concurrency \<Rightarrow> failure + concurrency" where
  "getConcurrency node operator c =
     concurrencyLoop operator (MustArray (Get node RootGroupExecInfo)) c"

section \<open>The duration analyzer\<close>

definition prod4 :: "concurrency \<Rightarrow> int" where
  "prod4 c =
     mul64 (mul64 (mul64 (joinConcurrency c) (tableConcurrency c)) (applyConcurrency c))
       (shuffleConcurrency c)"

definition prod5 :: "concurrency \<Rightarrow> int" where
  "prod5 c = mul64 (prod4 c) (copConcurrency c)"

definition getCopTaskDuratuon :: "'f golib \<Rightarrow> json \<Rightarrow> concurrency \<Rightarrow> string" where
  "getCopTaskDuratuon L node c =
     (let storeType = MustString (GetPath node [StoreType]);
          task = storeType @ ''_task'';
          ts = MustString (GetPath node [CopExecInfo, task, ''time''])
      in if ts = [] then
           (let taskType = MustString (GetPath node [TaskType])
            in if taskType = ''cop'' then
                 (let taskCount = atoi (MustString (GetPath node [CopExecInfo, task, ''tasks'']));
                      maxTS = MustString (GetPath node [CopExecInfo, task, ''proc max''])
                  in case parseDuration L maxTS of
                       None \<Rightarrow> maxTS
                     | Some maxDuration \<Rightarrow>
                         (case parseDuration L (MustString (GetPath node [CopExecInfo, task, ''avg''])) of
                            None \<Rightarrow> maxTS
                          | Some avgDuration \<Rightarrow>
                              (let n = fdiv L (ofInt L taskCount) (ofInt L (prod5 c));
                                   tsDuration =
                                     (if fless L (ofRat L 1) n
                                      then toInt L (fmul L (ofInt L avgDuration) n)
                                      else toInt L (fdiv L (ofInt L avgDuration) (ofInt L (prod4 c))))
                               in if maxDuration < tsDuration then maxTS
                                  else durationString L tsDuration)))
               else if taskType = ''batchCop'' \<or> taskType = ''mpp'' then
                 MustString (GetPath node [CopExecInfo, task, ''proc max''])
               else ''0s'')
         else ts)"

definition getOperatorDuratuon :: "'f golib \<Rightarrow> string \<Rightarrow> concurrency \<Rightarrow> string" where
  "getOperatorDuratuon L ts c =
     (case parseDuration L ts of
        None \<Rightarrow> ''0s''
      | Some t \<Rightarrow> durationString L (toInt L (fdiv L (ofInt L t) (ofInt L (prod4 c)))))"

definition attributedDuration :: "'f golib \<Rightarrow> json \<Rightarrow> concurrency \<Rightarrow> int" where
  "attributedDuration L node c =
     (let ts = MustString (GetPath node [RootBasicExecInfo, Time]);
          ts = (if ts = [] then getCopTaskDuratuon L node c else getOperatorDuratuon L ts c)
      in case parseDuration L ts of None \<Rightarrow> 0 | Some d \<Rightarrow> d)"

fun cacheHitLoop :: "'f golib \<Rightarrow> json list \<Rightarrow> 'f \<Rightarrow> failure + 'f" where
  "cacheHitLoop L [] cacheHitRatio = Inr cacheHitRatio"
| "cacheHitLoop L (entry # entries) cacheHitRatio =
     (let cacheHitRatioStr = trimRight (MustString (Get entry CacheHitRatio)) ''%''
      in if cacheHitRatioStr = [] then cacheHitLoop L entries cacheHitRatio
         else (case parseFloat L cacheHitRatioStr of
                 None \<Rightarrow> Inl ParseError
               | Some r \<Rightarrow> cacheHitLoop L entries r))"

definition probeConcurrency :: "'f golib \<Rightarrow> json \<Rightarrow> concurrency \<Rightarrow> failure + concurrency" where
  "probeConcurrency L n c =
     (case cacheHitLoop L (MustArray (Get n RootGroupExecInfo)) (ofRat L 0) of
        Inl f \<Rightarrow> Inl f
      | Inr cacheHitRatio \<Rightarrow>
          (case parseFloat L (MustString (Get n ActRows)) of
             None \<Rightarrow> Inl ParseError
           | Some actRows \<Rightarrow>
               (let taskCount =
                      toInt L (fmul L actRows
                        (fsub L (ofRat L 1) (fdiv L cacheHitRatio (ofRat L 100))))
                in if taskCount < applyConcurrency c
                   then Inr (c\<lparr>applyConcurrency := taskCount\<rparr>)
                   else Inr c)))"

definition childConcurrency :: "operator \<Rightarrow> json \<Rightarrow> concurrency \<Rightarrow> concurrency" where
  "childConcurrency operator n c =
     (if operator = IndexJoin \<or> operator = IndexMergeJoin \<or> operator = IndexHashJoin then
        (if MustString (Get n DriverSide) = ''probe'' then c else c\<lparr>joinConcurrency := 1\<rparr>)
      else if operator = IndexLookUpReader \<or> operator = IndexMergeReader then
        (if MustString (Get n DriverSide) = ''probe'' then c else c\<lparr>tableConcurrency := 1\<rparr>)
      else if operator = ShuffleReceiver then c\<lparr>shuffleConcurrency := 1\<rparr>
      else c)"

fun firstIndex :: "('a \<Rightarrow> bool) \<Rightarrow> 'a list \<Rightarrow> nat option" where
  "firstIndex P [] = None"
| "firstIndex P (x # xs) = (if P x then Some 0 else map_option Suc (firstIndex P xs))"

definition maxDuration :: "int list \<Rightarrow> failure + int" where
  "maxDuration durations =
     (case rev (sort durations) of [] \<Rightarrow> Inl IndexOutOfRange | d # _ \<Rightarrow> Inr d)"

lemma size_Get: "size (Get n k) \<le> size n"
proof (cases n)
  case (JObj kvs)
  have "map_of kvs k = Some v \<Longrightarrow> size v \<le> size_list (size_prod (\<lambda>x. 0) size) kvs" for v
    by (induction kvs) (auto split: if_splits)
  then show ?thesis using JObj by (auto simp: Get_def split: option.splits)
qed (simp_all add: Get_def)

lemma size_elem: "x \<in> set xs \<Longrightarrow> size x < size (JArr xs)"
  by (induction xs) auto

lemma firstIndex_Some: "firstIndex P xs = Some i \<Longrightarrow> i < length xs \<and> P (xs ! i)"
  by (induction xs arbitrary: i) (auto split: if_splits)

lemma size_nth: "i < length xs \<Longrightarrow> size (xs ! i) < size_list size xs"
proof (induction xs arbitrary: i)
  case Nil
  then show ?case by simp
next
  case (Cons a xs)
  show ?case
  proof (cases i)
    case 0
    then show ?thesis by simp
  next
    case (Suc k)
    with Cons.prems have "k < length xs" by simp
    from Cons.IH [OF this] show ?thesis using Suc by simp
  qed
qed

text \<open>
  \<^verbatim>\<open>analyzeDurationNode\<close> and \<^verbatim>\<open>analyzeDurationNodes\<close>. Each returns the duration and the
  node (or the array of nodes) as the pass leaves it. \<open>collectDurations\<close> is the part of
  \<^verbatim>\<open>analyzeDurationNodes\<close> that fills the slice \<^verbatim>\<open>durations\<close>, and \<open>analyzeEach\<close> is its loop
  over the children of an operator other than Apply. Under Apply the first child tagged
  \<^verbatim>\<open>build\<close> is analysed, then the first child tagged \<^verbatim>\<open>probe\<close>; the analysis of the build
  child writes durations only, so the probe child the second loop finds in the changed
  array is the one found in the array as it was. \<^verbatim>\<open>durations[0]\<close> of an empty slice is
  a panic.
\<close>

function analyzeDurationNode :: "'f golib \<Rightarrow> json \<Rightarrow> concurrency \<Rightarrow> failure + int \<times> json"
  and analyzeDurationNodes :: "'f golib \<Rightarrow> json \<Rightarrow> operator \<Rightarrow> concurrency \<Rightarrow> failure + int \<times> json"
  and collectDurations ::
    "'f golib \<Rightarrow> json list \<Rightarrow> operator \<Rightarrow> concurrency \<Rightarrow> failure + int list \<times> json list"
  and analyzeEach ::
    "'f golib \<Rightarrow> json list \<Rightarrow> operator \<Rightarrow> concurrency \<Rightarrow> failure + int list \<times> json list"
where
  "analyzeDurationNode L node c =
     (let duration = attributedDuration L node c;
          operator = getOperatorType node
      in case getConcurrency node operator c of
           Inl f \<Rightarrow> Inl f
         | Inr c1 \<Rightarrow>
             (case analyzeDurationNodes L (Get node Children) operator c1 of
                Inl f \<Rightarrow> Inl f
              | Inr (subDuration, children1) \<Rightarrow>
                  (let duration = (if duration < subDuration then subDuration else duration)
                   in Inr (duration,
                        Set Duration (JStr (durationString L duration))
                          (putBack Children children1 node)))))"
| "analyzeDurationNodes L nodes operator c =
     (let xs = MustArray nodes
      in if length xs = 0 then Inr (0, nodes)
         else
           (case collectDurations L xs operator c of
              Inl f \<Rightarrow> Inl f
            | Inr (durations, xs1) \<Rightarrow>
                (case maxDuration durations of
                   Inl f \<Rightarrow> Inl f
                 | Inr d \<Rightarrow> Inr (d, JArr xs1))))"
| "collectDurations L xs operator c =
     (if operator = Apply then
        (case
           (case firstIndex (\<lambda>n. MustString (Get n DriverSide) = ''build'') xs of
              None \<Rightarrow> Inr ([], c, xs)
            | Some i \<Rightarrow>
                (case analyzeDurationNode L (xs ! i) (c\<lparr>applyConcurrency := 1\<rparr>) of
                   Inl f \<Rightarrow> Inl f
                 | Inr (d, n1) \<Rightarrow>
                     (case probeConcurrency L n1 c of
                        Inl f \<Rightarrow> Inl f
                      | Inr c2 \<Rightarrow> Inr ([d], c2, xs[i := n1]))))
         of
           Inl f \<Rightarrow> Inl f
         | Inr (durations, c2, xs1) \<Rightarrow>
             (case firstIndex (\<lambda>n. MustString (Get n DriverSide) = ''probe'') xs of
                None \<Rightarrow> Inr (durations, xs1)
              | Some j \<Rightarrow>
                  (case analyzeDurationNode L (xs ! j) c2 of
                     Inl f \<Rightarrow> Inl f
                   | Inr (d, n2) \<Rightarrow> Inr (durations @ [d], xs1[j := n2]))))
      else analyzeEach L xs operator c)"
| "analyzeEach L [] operator c = Inr ([], [])"
| "analyzeEach L (n # ns) operator c =
     (case analyzeDurationNode L n (childConcurrency operator n c) of
        Inl f \<Rightarrow> Inl f
      | Inr (d, n1) \<Rightarrow>
          (case analyzeEach L ns operator c of
             Inl f \<Rightarrow> Inl f
           | Inr (ds, ns1) \<Rightarrow> Inr (d # ds, n1 # ns1)))"
  by pat_completeness auto
termination
proof (relation "measure (\<lambda>x. case x of
            Inl (Inl (L, n, c)) \<Rightarrow> 3 * size n + 1
          | Inl (Inr (L, j, operator, c)) \<Rightarrow> 3 * size j
          | Inr (Inl (L, xs, operator, c)) \<Rightarrow> 3 * size_list size xs + 2
          | Inr (Inr (L, xs, operator, c)) \<Rightarrow> 3 * size_list size xs + 1)", goal_cases)
  case 1
  show ?case by simp
next
  case (2 L node c)
  show ?case using size_Get [of node Children] by simp
next
  case (3 L nodes operator c xs)
  then show ?case by (cases nodes) (auto simp: MustArray_def)
next
  case (4 L xs operator c i)
  then show ?case using size_nth [of i xs] by (auto dest!: firstIndex_Some)
next
  case (5 L xs operator c b durations y c2 xs1 j)
  then show ?case using size_nth [of j xs] by (auto dest!: firstIndex_Some)
next
  case 6
  show ?case by simp
next
  case 7
  show ?case by simp
next
  case 8
  show ?case by simp
qed

declare analyzeDurationNode.simps [simp del] analyzeDurationNodes.simps [simp del]
  collectDurations.simps [simp del]

definition analyzeDuration :: "'f golib \<Rightarrow> json \<Rightarrow> failure + json" where
  "analyzeDuration L vp =
     (let rootTs = MustString (GetPath (Get vp MainTree) [RootBasicExecInfo, Time])
      in case analyzeDurationNode L (Get vp MainTree) newConcurrency of
           Inl f \<Rightarrow> Inl f
         | Inr (d, main1) \<Rightarrow>
             (let vp1 = putBack MainTree (Set Duration (JStr rootTs) main1) vp
              in case analyzeDurationNodes L (Get vp1 CteTrees) Default newConcurrency of
                   Inl f \<Rightarrow> Inl f
                 | Inr (d, ctes1) \<Rightarrow> Inr (putBack CteTrees ctes1 vp1)))"

section \<open>The field formatter\<close>

definition needSetNA :: "string list" where
  "needSetNA = [MemoryBytes, DiskBytes]"

definition needJSONFormat :: "string list" where
  "needJSONFormat = [RootGroupExecInfo, RootBasicExecInfo, CopExecInfo]"

definition formatJSON :: "'f golib \<Rightarrow> string \<Rightarrow> json option" where
  "formatJSON L s =
     (let s = ''{'' @ s @ ''}'';
          s = replaceAll s ''{'' ''{\"'';
          s = replaceAll s ''}'' ''\"}'';
          s = replaceAll s '':'' ''\":\"'';
          s = replaceAll s '','' ''\",\"'';
          s = replaceAll s ''\" '' ''\"'';
          s = replaceAll s ''}\"'' ''}'';
          s = replaceAll s ''\"{'' ''{'';
          s = replaceAll s ''{\"\"}'' ''{}''
      in newJson L s)"

definition setNA :: "string \<Rightarrow> json \<Rightarrow> json" where
  "setNA key node =
     (if MustString (Get node key) = ''-1'' then Set key (JStr ''N/A'') node else node)"

text \<open>
  The loop over the strings of the grouped field. When \<^verbatim>\<open>formatJSON\<close> fails, the string
  is appended and then, the loop body having no \<^verbatim>\<open>continue\<close>, the nil \<^verbatim>\<open>*simplejson.Json\<close>
  that came with the error as well.
\<close>

fun formatGroup :: "'f golib \<Rightarrow> string list \<Rightarrow> json list" where
  "formatGroup L [] = []"
| "formatGroup L (s # slist) =
     (case formatJSON L s of
        None \<Rightarrow> JStr s # JNilJson # formatGroup L slist
      | Some sJSON \<Rightarrow> sJSON # formatGroup L slist)"

definition formatField :: "'f golib \<Rightarrow> string \<Rightarrow> json \<Rightarrow> json" where
  "formatField L key node =
     (if key = RootGroupExecInfo
      then Set key (JArr (formatGroup L (MustStringArray (Get node key)))) node
      else (case formatJSON L (MustString (Get node key)) of
              None \<Rightarrow> node
            | Some sJSON \<Rightarrow> Set key sJSON node))"

definition formatFields :: "'f golib \<Rightarrow> json \<Rightarrow> json" where
  "formatFields L node = fold (formatField L) needJSONFormat (fold setNA needSetNA node)"

lemma map_of_upd_other: "k' \<noteq> k \<Longrightarrow> map_of (upd k v kvs) k' = map_of kvs k'"
  by (induction kvs) auto

lemma Get_Set_other: "k' \<noteq> k \<Longrightarrow> Get (Set k v n) k' = Get n k'"
  by (cases n) (simp_all add: Get_def Set_def map_of_upd_other)

lemma Get_formatFields_Children: "Get (formatFields L node) Children = Get node Children"
  by (simp add: formatFields_def needJSONFormat_def needSetNA_def formatField_def setNA_def
      Get_Set_other split: option.splits)

text \<open>
  \<^verbatim>\<open>formatNode\<close> and \<^verbatim>\<open>formatChildrenNodes\<close>. The only error either returns is one handed
  up from a recursive call and no call creates one, so the error is always nil and the
  model returns the tree alone.
\<close>

function formatNode :: "'f golib \<Rightarrow> json \<Rightarrow> json"
  and formatChildrenNodes :: "'f golib \<Rightarrow> json \<Rightarrow> json"
  and formatEach :: "'f golib \<Rightarrow> json list \<Rightarrow> json list"
where
  "formatNode L node =
     (let node1 = formatFields L node
      in putBack Children (formatChildrenNodes L (Get node1 Children)) node1)"
| "formatChildrenNodes L nodes =
     (let xs = MustArray nodes
      in if length xs = 0 then nodes else JArr (formatEach L xs))"
| "formatEach L [] = []"
| "formatEach L (c # cs) = formatNode L c # formatEach L cs"
  by pat_completeness auto
termination
proof (relation "measure (\<lambda>x. case x of
            Inl (L, n) \<Rightarrow> 3 * size n + 1
          | Inr (Inl (L, j)) \<Rightarrow> 3 * size j
          | Inr (Inr (L, xs)) \<Rightarrow> 3 * size_list size xs + 2)", goal_cases)
  case 1
  show ?case by simp
next
  case (2 L node node1)
  then show ?case using size_Get [of node Children] by (simp add: Get_formatFields_Children)
next
  case (3 L nodes xs)
  then show ?case by (cases nodes) (auto simp: MustArray_def)
next
  case 4
  show ?case by simp
next
  case 5
  show ?case by simp
qed

declare formatNode.simps [simp del] formatChildrenNodes.simps [simp del]

definition formatBinaryPlanJSON :: "'f golib \<Rightarrow> json \<Rightarrow> json" where
  "formatBinaryPlanJSON L vp =
     (let vp1 = putBack MainTree (formatNode L (Get vp MainTree)) vp
      in putBack CteTrees (formatChildrenNodes L (Get vp1 CteTrees)) vp1)"

section \<open>The predicate matcher\<close>

definition needCheckOperator :: "string list" where
  "needCheckOperator = [''eq'', ''ge'', ''gt'', ''le'', ''lt'', ''isnull'', ''in'']"

definition looksLikeColumn :: "string \<Rightarrow> bool" where
  "looksLikeColumn c = (count c ''.'' = 2 \<and> \<not> contains c ''\"'')"

definition addColumn :: "string \<Rightarrow> string set \<Rightarrow> string set" where
  "addColumn column columnSet = (if column \<noteq> [] then insert column columnSet else columnSet)"

text \<open>
  One round of the inner loop: the text and the column set after the span of \<open>op\<close> is cut
  out, or \<open>None\<close> where the source returns false.
\<close>

definition extractSpan ::
  "'f golib \<Rightarrow> string \<Rightarrow> string \<Rightarrow> string set \<Rightarrow> (string \<times> string set) option" where
  "extractSpan L op operatorInfo columnSet =
     (case cut operatorInfo (op @ ''('') of (s1, s, found1) \<Rightarrow>
      (case cut s '')'' of (s, s2, found2) \<Rightarrow>
         if contains s ''('' then None
         else if op = ''isnull'' then
           (let wrapped = (hasSuffix s1 ''not('' \<and> hasPrefix s2 '')'');
                s1 = (if wrapped then trimRight s1 ''not('' else s1);
                s2 = (if wrapped then trimLeft s2 '')'' else s2);
                column = trimSpace L s
            in Some (s1 @ s2, addColumn column columnSet))
         else if op = ''in'' then
           (case split s (CHR '','') of
              [] \<Rightarrow> None
            | first # rest \<Rightarrow>
                (let column = trimSpace L first
                 in if list_ex (\<lambda>c. looksLikeColumn (trimSpace L c)) rest then None
                    else Some (s1 @ s2, addColumn column columnSet)))
         else
           (case split s (CHR '','') of
              [a, b] \<Rightarrow>
                (let c1 = trimSpace L a;
                     c2 = trimSpace L b;
                     column = (if looksLikeColumn c1 then c1
                               else if looksLikeColumn c2 then c2 else []);
                     c = (if looksLikeColumn c1 then c2
                          else if looksLikeColumn c2 then c1 else [])
                 in case split column (CHR ''.'') of
                      [] \<Rightarrow> None
                    | database # _ \<Rightarrow>
                        if hasPrefix c database then None
                        else Some (s1 @ s2, addColumn column columnSet))
            | _ \<Rightarrow> None)))"

fun extractSpans ::
  "'f golib \<Rightarrow> string \<Rightarrow> nat \<Rightarrow> string \<Rightarrow> string set \<Rightarrow> (string \<times> string set) option" where
  "extractSpans L op 0 operatorInfo columnSet = Some (operatorInfo, columnSet)"
| "extractSpans L op (Suc n) operatorInfo columnSet =
     (case extractSpan L op operatorInfo columnSet of
        None \<Rightarrow> None
      | Some (operatorInfo1, columnSet1) \<Rightarrow> extractSpans L op n operatorInfo1 columnSet1)"

text \<open>
  The loop over \<^verbatim>\<open>needCheckOperator\<close>: the flag, the residual text and the column set it
  ends with, or \<open>None\<close> where a span made the source return false.
\<close>

fun scanOperators ::
  "'f golib \<Rightarrow> string list \<Rightarrow> bool \<Rightarrow> string \<Rightarrow> string set
     \<Rightarrow> (bool \<times> string \<times> string set) option" where
  "scanOperators L [] found operatorInfo columnSet = Some (found, operatorInfo, columnSet)"
| "scanOperators L (op # ops) found operatorInfo columnSet =
     (if contains operatorInfo op then
        (case extractSpans L op (count operatorInfo (op @ ''('')) operatorInfo columnSet of
           None \<Rightarrow> None
         | Some (operatorInfo1, columnSet1) \<Rightarrow>
             scanOperators L ops True operatorInfo1 columnSet1)
      else scanOperators L ops found operatorInfo columnSet)"

definition useComparisonOperator :: "'f golib \<Rightarrow> string \<Rightarrow> bool" where
  "useComparisonOperator L operatorInfo =
     (case scanOperators L needCheckOperator False operatorInfo {} of
        None \<Rightarrow> False
      | Some (found, residual, columnSet) \<Rightarrow>
          if found then
            (if count residual ''('' = count residual '')'' \<and> 0 < count residual ''(''
             then False
             else if card columnSet \<noteq> 1 then False
             else found)
          else found)"

section \<open>The diagnostic rule engine\<close>

record diagnosticOperation =
  needUdateStatistics :: bool

definition newDiagnosticOperation :: diagnosticOperation where
  "newDiagnosticOperation = \<lparr>needUdateStatistics = False\<rparr>"

definition JoinTaskThreshold :: int where
  "JoinTaskThreshold = 10000"

definition returnTableThreshold :: rat where
  "returnTableThreshold = 7 / 10"

definition pseudoStatsMessage :: string where
  "pseudoStatsMessage = ''This operator used pseudo statistics and the estimation might be inaccurate. It might be caused by unavailable or outdated statistics. Consider collecting statistics or setting variable tidb_enable_pseudo_for_outdated_stats to OFF.''"

definition diskSpillMessage :: string where
  "diskSpillMessage = ''Disk spill is triggered for this operator because the memory quota is exceeded. The execution might be slow. Consider increasing the memory quota if there's enough memory.''"

definition estimationErrorMessage :: string where
  "estimationErrorMessage = ''The estimation error is high. Consider checking the health state of the statistics.''"

definition largeBuildSideMessage :: string where
  "largeBuildSideMessage = ''This index join has a large build side. It might be slow and cause heavy pressure on TiKV. Consider using the optimizer hints to guide the optimizer to choose hash join.''"

definition indexSideReadMessage :: string where
  "indexSideReadMessage = ''This IndexLookup read a lot of data from the index side. It might be slow and cause heavy pressure on TiKV. Consider using the optimizer hints to guide the optimizer to choose a better index or not to use index.''"

definition addIndexMessage :: string where
  "addIndexMessage = ''This Selection filters a high proportion of data. Using an index on this column might achieve better performance. Consider adding an index on this column if there is not one.''"

definition useTiFlashMessage :: string where
  "useTiFlashMessage = ''The TiKV read a lot of data. Consider using TiFlash to get better performance if it's necessary to read so much data.''"

definition GetIndex :: "json \<Rightarrow> nat \<Rightarrow> json" where
  "GetIndex j i =
     (case j of JArr xs \<Rightarrow> (if i < length xs then xs ! i else JNull) | _ \<Rightarrow> JNull)"

text \<open>\<open>None\<close> is the nil pointer that \<^verbatim>\<open>getBuildChildrenWithDriverSide\<close> returns.\<close>

definition getBuildChildrenWithDriverSide :: "json \<Rightarrow> string \<Rightarrow> json option" where
  "getBuildChildrenWithDriverSide node driverSide =
     (let xs = MustArray (Get node Children)
      in if length xs = 0 then None
         else (case firstIndex (\<lambda>n. MustString (Get n DriverSide) = driverSide) xs of
                 None \<Rightarrow> None
               | Some i \<Rightarrow> Some (xs ! i)))"

text \<open>The two rules evaluated before the children are visited.\<close>

definition pseudoStatsDiagnosis :: "'f golib \<Rightarrow> json \<Rightarrow> string list" where
  "pseudoStatsDiagnosis L node =
     (if contains (MustString (Get node OperatorInfo)) ''stats:pseudo'' then
        (let database = toLower L (MustString (GetPath node [ScanObject, ''database'']))
         in if database = ''information_schema'' \<or> database = ''metrics_schema''
               \<or> database = ''performance_schema'' \<or> database = ''mysql''
            then [] else [pseudoStatsMessage])
      else [])"

definition diskSpillDiagnosis :: "json \<Rightarrow> string list" where
  "diskSpillDiagnosis node =
     (if MustString (Get node DiskBytes) \<noteq> ''N/A'' then [diskSpillMessage] else [])"

text \<open>
  The estimation-error rule: the message it appends, if any, and the state it leaves.
\<close>

definition estimationDiagnosis ::
  "'f golib \<Rightarrow> json \<Rightarrow> operator \<Rightarrow> diagnosticOperation \<Rightarrow> string list \<times> diagnosticOperation" where
  "estimationDiagnosis L node operator diagOp =
     (if needUdateStatistics diagOp then
        (if operator = IndexFullScan \<or> operator = IndexRangeScan \<or> operator = TableFullScan
            \<or> operator = TableRangeScan \<or> operator = TableRowIDScan \<or> operator = Selection
         then
           (let actRows = MustFloat64 L (Get node ActRows);
                estRows = MustFloat64 L (Get node EstRows);
                zero = (feq L actRows (ofRat L 0) \<or> feq L estRows (ofRat L 0));
                actRows = (if zero then ofRat L 1 else actRows);
                estRows = (if zero then ofRat L 1 else estRows)
            in (if fless L (ofRat L 100) (fdiv L actRows estRows)
                   \<or> fless L (ofRat L 100) (fdiv L estRows actRows)
                then [estimationErrorMessage] else [],
                diagOp\<lparr>needUdateStatistics := True\<rparr>))
         else ([], diagOp\<lparr>needUdateStatistics := False\<rparr>))
      else ([], diagOp))"

text \<open>
  The second \<^verbatim>\<open>switch operator\<close>. Under IndexLookUpReader the build child may be the nil
  pointer, and \<^verbatim>\<open>getOperatorType\<close> then calls a method through it.
\<close>

definition operatorDiagnosis :: "'f golib \<Rightarrow> json \<Rightarrow> operator \<Rightarrow> string \<Rightarrow> failure + string list" where
  "operatorDiagnosis L node operator operatorInfo =
     (if operator = IndexJoin \<or> operator = IndexMergeJoin \<or> operator = IndexHashJoin then
        (if list_ex (\<lambda>entry. JoinTaskThreshold < atoi (MustString (GetPath entry [''inner'', ''task''])))
              (MustArray (Get node RootGroupExecInfo))
         then Inr [largeBuildSideMessage] else Inr [])
      else if operator = IndexLookUpReader then
        (case getBuildChildrenWithDriverSide node ''build'' of
           None \<Rightarrow> Inl NilDereference
         | Some cNode \<Rightarrow>
             if getOperatorType cNode \<noteq> Selection then Inr []
             else if length (MustArray (Get cNode Children)) \<noteq> 1 then Inr []
             else
               (let gNode = GetIndex (Get cNode Children) 0
                in if getOperatorType gNode \<noteq> IndexFullScan then Inr []
                   else if \<not> contains (MustString (Get gNode OperatorInfo)) ''keep order:false''
                   then Inr []
                   else
                     (let cNodeActRows = MustFloat64 L (Get cNode ActRows);
                          gNodeActRows = MustFloat64 L (Get gNode ActRows)
                      in if fless L (ofRat L returnTableThreshold) (fdiv L cNodeActRows gNodeActRows)
                         then Inr [indexSideReadMessage] else Inr [])))
      else if operator = Selection then
        (if length (MustArray (Get node Children)) \<noteq> 1 then Inr []
         else
           (let cNode = GetIndex (Get node Children) 0
            in if getOperatorType cNode \<noteq> IndexFullScan then Inr []
               else if MustString (Get node StoreType) \<noteq> ''tikv'' then Inr []
               else if \<not> useComparisonOperator L operatorInfo then Inr []
               else if fless L (MustFloat64 L (Get node ActRows)) (ofRat L 10000)
                       \<and> fless L (ofRat L 5000000) (MustFloat64 L (Get cNode ActRows))
               then Inr [addIndexMessage] else Inr []))
      else if operator = TableFullScan then
        (if MustString (Get node StoreType) = ''tikv''
            \<and> fless L (ofRat L 1000000000) (MustFloat64 L (Get node ActRows))
         then Inr [useTiFlashMessage] else Inr [])
      else Inr [])"

text \<open>
  \<^verbatim>\<open>diagnosticOperatorNode\<close> and \<^verbatim>\<open>diagnosticOperatorNodes\<close>; \<open>diagnosticEach\<close> is the loop
  over the children, which hands each child the state the loop was entered with and
  remembers whether any child asked for the statistics check. No call creates an error
  value; \<open>Inl\<close> is a panic.
\<close>

function diagnosticOperatorNode ::
    "'f golib \<Rightarrow> json \<Rightarrow> diagnosticOperation \<Rightarrow> failure + diagnosticOperation \<times> json"
  and diagnosticOperatorNodes ::
    "'f golib \<Rightarrow> json \<Rightarrow> diagnosticOperation \<Rightarrow> failure + diagnosticOperation \<times> json"
  and diagnosticEach ::
    "'f golib \<Rightarrow> json list \<Rightarrow> diagnosticOperation \<Rightarrow> bool \<Rightarrow> failure + bool \<times> json list"
where
  "diagnosticOperatorNode L node diagOp =
     (let operator = getOperatorType node;
          operatorInfo = MustString (Get node OperatorInfo);
          diagnosis = pseudoStatsDiagnosis L node @ diskSpillDiagnosis node
      in case diagnosticOperatorNodes L (Get node Children) diagOp of
           Inl f \<Rightarrow> Inl f
         | Inr (diagOp1, children1) \<Rightarrow>
             (let node1 = putBack Children children1 node
              in case estimationDiagnosis L node1 operator diagOp1 of
                   (estimation, diagOp2) \<Rightarrow>
                     (case operatorDiagnosis L node1 operator operatorInfo of
                        Inl f \<Rightarrow> Inl f
                      | Inr rest \<Rightarrow>
                          Inr (diagOp2,
                            Set Diagnosis (JArr (map JStr (diagnosis @ estimation @ rest)))
                              node1))))"
| "diagnosticOperatorNodes L nodes diagOp =
     (let xs = MustArray nodes
      in if length xs = 0 then Inr (diagOp\<lparr>needUdateStatistics := True\<rparr>, nodes)
         else (case diagnosticEach L xs diagOp False of
                 Inl f \<Rightarrow> Inl f
               | Inr (need, xs1) \<Rightarrow> Inr (diagOp\<lparr>needUdateStatistics := need\<rparr>, JArr xs1)))"
| "diagnosticEach L [] diagOp need = Inr (need, [])"
| "diagnosticEach L (c # cs) diagOp need =
     (case diagnosticOperatorNode L c diagOp of
        Inl f \<Rightarrow> Inl f
      | Inr (n, c1) \<Rightarrow>
          (case diagnosticEach L cs diagOp (if needUdateStatistics n then True else need) of
             Inl f \<Rightarrow> Inl f
           | Inr (need1, cs1) \<Rightarrow> Inr (need1, c1 # cs1)))"
  by pat_completeness auto
termination
proof (relation "measure (\<lambda>x. case x of
            Inl (L, n, d) \<Rightarrow> 3 * size n + 1
          | Inr (Inl (L, j, d)) \<Rightarrow> 3 * size j
          | Inr (Inr (L, xs, d, b)) \<Rightarrow> 3 * size_list size xs + 2)", goal_cases)
  case 1
  show ?case by simp
next
  case (2 L node diagOp)
  then show ?case using size_Get [of node Children] by simp
next
  case (3 L nodes diagOp xs)
  then show ?case by (cases nodes) (auto simp: MustArray_def)
next
  case 4
  show ?case by simp
next
  case 5
  show ?case by simp
qed

declare diagnosticOperatorNode.simps [simp del] diagnosticOperatorNodes.simps [simp del]

definition diagnosticOperator :: "'f golib \<Rightarrow> json \<Rightarrow> failure + json" where
  "diagnosticOperator L vp =
     (case diagnosticOperatorNode L (Get vp MainTree) newDiagnosticOperation of
        Inl f \<Rightarrow> Inl f
      | Inr (d, main1) \<Rightarrow>
          (let vp1 = putBack MainTree main1 vp
           in case diagnosticOperatorNodes L (Get vp1 CteTrees) newDiagnosticOperation of
                Inl f \<Rightarrow> Inl f
              | Inr (d, ctes1) \<Rightarrow> Inr (putBack CteTrees ctes1 vp1)))"

section \<open>A reference instance of the library\<close>

text \<open>
  The closed examples below need one concrete library. \<open>refLib\<close> computes with exact
  rationals extended by the two infinities and NaN, and handles ASCII text only. It agrees
  with the Go functions on every argument the examples pass to it: small whole numbers,
  which \<^verbatim>\<open>float64\<close> represents and divides without rounding where the examples divide them,
  ASCII text, durations written as a whole number and one unit, and three JSON texts.
\<close>

datatype f64 = Fin rat | PInf | NInf | NaN

fun f64_div :: "f64 \<Rightarrow> f64 \<Rightarrow> f64" where
  "f64_div (Fin a) (Fin b) =
     (if b = 0 then (if a = 0 then NaN else if 0 < a then PInf else NInf) else Fin (a / b))"
| "f64_div (Fin a) PInf = Fin 0"
| "f64_div (Fin a) NInf = Fin 0"
| "f64_div PInf (Fin b) = (if b < 0 then NInf else PInf)"
| "f64_div NInf (Fin b) = (if b < 0 then PInf else NInf)"
| "f64_div _ _ = NaN"

fun f64_mul :: "f64 \<Rightarrow> f64 \<Rightarrow> f64" where
  "f64_mul (Fin a) (Fin b) = Fin (a * b)"
| "f64_mul (Fin a) PInf = (if a = 0 then NaN else if 0 < a then PInf else NInf)"
| "f64_mul (Fin a) NInf = (if a = 0 then NaN else if 0 < a then NInf else PInf)"
| "f64_mul PInf (Fin b) = (if b = 0 then NaN else if 0 < b then PInf else NInf)"
| "f64_mul NInf (Fin b) = (if b = 0 then NaN else if 0 < b then NInf else PInf)"
| "f64_mul PInf PInf = PInf"
| "f64_mul NInf NInf = PInf"
| "f64_mul PInf NInf = NInf"
| "f64_mul NInf PInf = NInf"
| "f64_mul _ _ = NaN"

fun f64_sub :: "f64 \<Rightarrow> f64 \<Rightarrow> f64" where
  "f64_sub (Fin a) (Fin b) = Fin (a - b)"
| "f64_sub (Fin a) PInf = NInf"
| "f64_sub (Fin a) NInf = PInf"
| "f64_sub PInf (Fin b) = PInf"
| "f64_sub NInf (Fin b) = NInf"
| "f64_sub PInf NInf = PInf"
| "f64_sub NInf PInf = NInf"
| "f64_sub _ _ = NaN"

fun f64_eq :: "f64 \<Rightarrow> f64 \<Rightarrow> bool" where
  "f64_eq (Fin a) (Fin b) = (a = b)"
| "f64_eq PInf PInf = True"
| "f64_eq NInf NInf = True"
| "f64_eq _ _ = False"

fun f64_less :: "f64 \<Rightarrow> f64 \<Rightarrow> bool" where
  "f64_less (Fin a) (Fin b) = (a < b)"
| "f64_less (Fin a) PInf = True"
| "f64_less NInf (Fin b) = True"
| "f64_less NInf PInf = True"
| "f64_less _ _ = False"

text \<open>
  The conversion to a 64-bit integer truncates towards zero; out of range, and for the
  infinities and NaN, it gives the least integer, as the amd64 instruction does.
\<close>

fun f64_toInt :: "f64 \<Rightarrow> int" where
  "f64_toInt (Fin r) =
     (let t = (if 0 \<le> r then \<lfloor>r\<rfloor> else \<lceil>r\<rceil>)
      in if - (2 ^ 63) \<le> t \<and> t < 2 ^ 63 then t else - (2 ^ 63))"
| "f64_toInt _ = - (2 ^ 63)"

definition refParseFloat :: "string \<Rightarrow> f64 option" where
  "refParseFloat s =
     (let neg = (s \<noteq> [] \<and> hd s = CHR ''-'');
          ds = (if s \<noteq> [] \<and> (hd s = CHR ''-'' \<or> hd s = CHR ''+'') then tl s else s)
      in if ds = [] \<or> \<not> list_all isDigit ds then None
         else (let v = of_nat (digitsValue 0 ds) in Some (Fin (if neg then - v else v))))"

definition refToLower :: "string \<Rightarrow> string" where
  "refToLower s =
     map (\<lambda>c. if 65 \<le> (of_char c :: nat) \<and> (of_char c :: nat) \<le> 90
              then char_of ((of_char c :: nat) + 32) else c) s"

definition asciiSpace :: "char \<Rightarrow> bool" where
  "asciiSpace c = (c = CHR 0x09 \<or> c = CHR 0x0A \<or> c = CHR 0x0B \<or> c = CHR 0x0C
                    \<or> c = CHR 0x0D \<or> c = CHR '' '')"

definition refTrimSpace :: "string \<Rightarrow> string" where
  "refTrimSpace s = rev (dropWhile asciiSpace (rev (dropWhile asciiSpace s)))"

definition unitNanos :: "string \<Rightarrow> int option" where
  "unitNanos u =
     (if u = ''ns'' then Some 1
      else if u = ''us'' then Some 1000
      else if u = ''ms'' then Some 1000000
      else if u = ''s'' then Some 1000000000
      else if u = ''m'' then Some 60000000000
      else if u = ''h'' then Some 3600000000000
      else None)"

definition refParseDuration :: "string \<Rightarrow> int option" where
  "refParseDuration s =
     (if s = ''0'' then Some 0
      else (let ds = takeWhile isDigit s; u = dropWhile isDigit s
            in if ds = [] then None
               else (case unitNanos u of
                       None \<Rightarrow> None
                     | Some k \<Rightarrow>
                         (let v = int (digitsValue 0 ds) * k
                          in if v < 2 ^ 63 then Some v else None))))"

text \<open>\<^verbatim>\<open>Duration.String\<close>: digits, the fraction without its trailing zeros, the unit.\<close>

definition digitChar :: "nat \<Rightarrow> char" where
  "digitChar n = ''0123456789'' ! (n mod 10)"

function showNat :: "nat \<Rightarrow> string" where
  "showNat n = (if n < 10 then [digitChar n] else showNat (n div 10) @ [digitChar n])"
  by pat_completeness auto
termination
  by (relation "measure id") auto

declare showNat.simps [simp del]

fun fracDigits :: "nat \<Rightarrow> nat \<Rightarrow> string" where
  "fracDigits 0 v = []"
| "fracDigits (Suc prec) v = fracDigits prec (v div 10) @ [digitChar v]"

definition fmtFrac :: "nat \<Rightarrow> nat \<Rightarrow> string" where
  "fmtFrac v prec =
     (if v mod 10 ^ prec = 0 then []
      else ''.'' @ rev (dropWhile (\<lambda>c. c = CHR ''0'') (rev (fracDigits prec (v mod 10 ^ prec)))))"

definition refDurationString :: "int \<Rightarrow> string" where
  "refDurationString d =
     (let u = nat \<bar>d\<bar>;
          body =
            (if u < 1000000000 then
               (if u = 0 then ''0s''
                else if u < 1000 then showNat u @ ''ns''
                else if u < 1000000 then
                  showNat (u div 1000) @ fmtFrac u 3 @ [CHR 0xC2, CHR 0xB5, CHR ''s'']
                else showNat (u div 1000000) @ fmtFrac u 6 @ ''ms'')
             else
               (let secs = u div 1000000000;
                    mins = secs div 60;
                    hours = mins div 60
                in (if 0 < hours then showNat hours @ ''h'' else [])
                   @ (if 0 < mins then showNat (mins mod 60) @ ''m'' else [])
                   @ showNat (secs mod 60) @ fmtFrac u 9 @ ''s''))
      in if d < 0 then ''-'' @ body else body)"

definition refNewJson :: "string \<Rightarrow> json option" where
  "refNewJson s =
     (if s = ''{}'' then Some (JObj [])
      else if s = ''{\"time\":\"1s\"}'' then Some (JObj [(''time'', JStr ''1s'')])
      else None)"

definition refLib :: "f64 golib" where
  "refLib =
     \<lparr>toLower = refToLower, trimSpace = refTrimSpace, parseDuration = refParseDuration,
      durationString = refDurationString, parseFloat = refParseFloat, ofRat = Fin,
      toInt = f64_toInt, fdiv = f64_div, fmul = f64_mul, fsub = f64_sub, feq = f64_eq,
      fless = f64_less, newJson = refNewJson\<rparr>"

section \<open>Properties of the concurrency resolver\<close>

lemma atoi_2: "atoi ''2'' = 2"
  by (simp add: atoi_def isDigit_def)

lemma atoi_5: "atoi ''5'' = 5"
  by (simp add: atoi_def isDigit_def)

lemma atoi_empty: "atoi [] = 0"
  by (simp add: atoi_def)

text \<open>
  C4. An IndexLookUpReader entry with table-task concurrency 2 and 5 table tasks, reached
  with join multiplier 1, table multiplier 1 and coprocessor multiplier 3: the effective
  table concurrency is min 2 (5 / 1) = 2, and the new table multiplier is 6, the effective
  concurrency times the coprocessor multiplier, not 2 times the old table multiplier.
\<close>

theorem getConcurrency_table_from_cop:
  "getConcurrency
     (JObj [(RootGroupExecInfo,
         JArr [JObj [(''table_task'',
           JObj [(''concurrency'', JStr ''2''), (''num'', JStr ''5'')])]])])
     IndexLookUpReader
     \<lparr>joinConcurrency = 1, copConcurrency = 3, tableConcurrency = 1,
      applyConcurrency = 1, shuffleConcurrency = 1\<rparr>
   = Inr \<lparr>joinConcurrency = 1, copConcurrency = 3, tableConcurrency = 6,
          applyConcurrency = 1, shuffleConcurrency = 1\<rparr>"
  by (simp add: getConcurrency_def Get_def MustArray_def MustString_def kindConcurrency_def
      copStep_def atoi_2 atoi_5 atoi_empty quot64_def mul64_def wrap64_def)

section \<open>Properties of the duration analyzer\<close>

text \<open>
  C10. An Apply node with one child that is tagged neither \<^verbatim>\<open>build\<close> nor \<^verbatim>\<open>probe\<close>: both
  loops of the Apply branch skip the child, the slice of durations stays empty, and
  \<^verbatim>\<open>durations[0]\<close> is an index out of range. This holds for every library and every
  incoming state.
\<close>

theorem analyzeDurationNodes_Apply_panics:
  "analyzeDurationNodes L (JArr [JObj [(OperatorName, JStr ''TableFullScan_5'')]]) Apply c
     = Inl IndexOutOfRange"
  by (simp add: analyzeDurationNodes.simps collectDurations.simps MustArray_def Get_def
      MustString_def maxDuration_def)

lemma refParseFloat_0: "refParseFloat ''0'' = Some (Fin 0)"
  by (simp add: refParseFloat_def isDigit_def)

section \<open>Properties of the field formatter\<close>

lemma replaceAll_Nil: "replaceAll [] old new = []"
  by (simp add: replaceAll.simps)

lemma replaceAll_Cons:
  "old \<noteq> [] \<Longrightarrow> replaceAll (c # s) old new =
     (if hasPrefix (c # s) old then new @ replaceAll (drop (length old) (c # s)) old new
      else c # replaceAll s old new)"
  by (subst replaceAll.simps) simp

lemma formatJSON_x: "formatJSON refLib ''x'' = None"
  by (simp add: formatJSON_def refLib_def refNewJson_def replaceAll_Nil replaceAll_Cons
      hasPrefix_def)

lemma formatJSON_empty: "formatJSON refLib [] = Some (JObj [])"
  by (simp add: formatJSON_def refLib_def refNewJson_def replaceAll_Nil replaceAll_Cons
      hasPrefix_def)

lemma formatJSON_time: "formatJSON refLib ''time:1s'' = Some (JObj [(Time, JStr ''1s'')])"
  by (simp add: formatJSON_def refLib_def refNewJson_def replaceAll_Nil replaceAll_Cons
      hasPrefix_def)

text \<open>
  C7. A node whose grouped field holds the one string \<^verbatim>\<open>x\<close>, which \<^verbatim>\<open>formatJSON\<close> cannot
  convert (it becomes the text \<^verbatim>\<open>{"x"}\<close>): after \<^verbatim>\<open>formatNode\<close> the grouped field has two
  entries, the string and a nil \<^verbatim>\<open>*simplejson.Json\<close>.
\<close>

theorem formatNode_failed_entry_doubled:
  "Get (formatNode refLib (JObj [(RootGroupExecInfo, JArr [JStr ''x''])])) RootGroupExecInfo
     = JArr [JStr ''x'', JNilJson]"
  by (simp add: formatNode.simps formatChildrenNodes.simps formatFields_def needSetNA_def
      needJSONFormat_def setNA_def formatField_def Get_def Set_def putBack_def MustString_def
      MustArray_def MustStringArray_def formatJSON_x formatJSON_empty)

section \<open>Properties of the predicate matcher\<close>

text \<open>
  C5, as stated, fails. For \<^verbatim>\<open>eq(test.t.a, 1))\<close> the residual text is \<^verbatim>\<open>)\<close>, an unmatched
  parenthesis, and the matcher accepts. For \<^verbatim>\<open>eq(test.t.a, 1), f()\<close> a comparison was found
  and exactly one column was collected, and the matcher rejects, because the residual text
  holds one opening and one closing parenthesis.
\<close>

theorem useComparisonOperator_counterexample:
  "scanOperators refLib needCheckOperator False ''eq(test.t.a, 1))'' {}
     = Some (True, '')'', {''test.t.a''})
   \<and> useComparisonOperator refLib ''eq(test.t.a, 1))''
   \<and> scanOperators refLib needCheckOperator False ''eq(test.t.a, 1), f()'' {}
     = Some (True, '', f()'', {''test.t.a''})
   \<and> \<not> useComparisonOperator refLib ''eq(test.t.a, 1), f()''"
  by code_simp

text \<open>
  C5, amended. The matcher accepts exactly when the extraction of the operator spans ran
  to its end without a rejection, at least one operator token was found, the residual text
  does not hold a positive number of opening parentheses equal to its number of closing
  ones, and exactly one distinct column was collected.
\<close>

theorem useComparisonOperator_iff:
  "useComparisonOperator L operatorInfo \<longleftrightarrow>
     (\<exists>residual columnSet.
        scanOperators L needCheckOperator False operatorInfo {} = Some (True, residual, columnSet)
        \<and> \<not> (count residual ''('' = count residual '')'' \<and> 0 < count residual ''('')
        \<and> card columnSet = 1)"
  by (auto simp: useComparisonOperator_def split: option.splits)

section \<open>Idempotence of the field formatter\<close>

lemma map_of_upd_same: "map_of (upd k v kvs) k = Some v"
  by (induction kvs) auto

lemma Get_Set_same: "Get (Set k v (JObj kvs)) k = v"
  by (simp add: Get_def Set_def map_of_upd_same)

lemma Get_putBack_other: "k' \<noteq> k \<Longrightarrow> Get (putBack k v n) k' = Get n k'"
  by (cases n) (simp_all add: Get_def putBack_def map_of_upd_other)

lemma Get_setNA_other: "k' \<noteq> k \<Longrightarrow> Get (setNA k n) k' = Get n k'"
  by (simp add: setNA_def Get_Set_other)

lemma setNA_not_sentinel: "MustString (Get (setNA k n) k) \<noteq> ''-1''"
  by (cases n) (simp_all add: setNA_def Get_Set_same, simp_all add: Get_def MustString_def)

lemma setNA_idle: "MustString (Get n k) \<noteq> ''-1'' \<Longrightarrow> setNA k n = n"
  by (simp add: setNA_def)

lemma Get_formatField_other: "k' \<noteq> k \<Longrightarrow> Get (formatField L k n) k' = Get n k'"
  by (auto simp: formatField_def Get_Set_other split: option.splits)

lemma Get_formatFields_other:
  "key \<noteq> RootGroupExecInfo \<Longrightarrow> key \<noteq> RootBasicExecInfo \<Longrightarrow> key \<noteq> CopExecInfo \<Longrightarrow>
   Get (formatFields L n) key = Get (setNA DiskBytes (setNA MemoryBytes n)) key"
  by (simp add: formatFields_def needJSONFormat_def needSetNA_def Get_formatField_other)

lemma Get_formatNode_other:
  "key \<noteq> Children \<Longrightarrow> Get (formatNode L n) key = Get (formatFields L n) key"
  by (simp add: formatNode.simps Get_putBack_other Let_def)

lemma formatNode_no_sentinel:
  "MustString (Get (formatNode L n) MemoryBytes) \<noteq> ''-1''
   \<and> MustString (Get (formatNode L n) DiskBytes) \<noteq> ''-1''"
  using setNA_not_sentinel [of MemoryBytes n] setNA_not_sentinel [of DiskBytes "setNA MemoryBytes n"]
  by (simp add: Get_formatNode_other Get_formatFields_other Get_setNA_other)

lemma MustArray_JArr: "MustArray (JArr xs) = xs"
  by (simp add: MustArray_def)

lemma formatEach_map: "formatEach L xs = map (formatNode L) xs"
  by (induction xs) simp_all

lemma MustArray_Get_formatNode_Children:
  "MustArray (Get (formatNode L n) Children) = map (formatNode L) (MustArray (Get n Children))"
proof -
  let ?m = "formatFields L n"
  have m: "Get ?m Children = Get n Children" by (rule Get_formatFields_Children)
  show ?thesis
  proof (cases "\<exists>kvs. ?m = JObj kvs \<and> map_of kvs Children \<noteq> None")
    case True
    then obtain kvs y where kvs: "?m = JObj kvs" "map_of kvs Children = Some y"
      by auto
    then have y: "Get ?m Children = y"
      by (simp add: Get_def)
    have "Get (formatNode L n) Children = formatChildrenNodes L y"
      using kvs y by (simp add: formatNode.simps Let_def putBack_def Get_def map_of_upd_same)
    then show ?thesis
      using m y by (simp add: formatChildrenNodes.simps Let_def formatEach_map MustArray_JArr)
  next
    case False
    then have "Get ?m Children = JNull"
      by (cases ?m) (auto simp: Get_def)
    moreover have "putBack Children v ?m = ?m" for v
      using False by (cases ?m) (auto simp: putBack_def)
    ultimately show ?thesis
      using m by (simp add: formatNode.simps MustArray_def Let_def)
  qed
qed

text \<open>
  C6, amended. A second application of \<^verbatim>\<open>formatNode\<close> leaves every field of a node
  unchanged except the three execution-summary fields (so the sentinel substitution is
  neither repeated nor undone), and it visits the children of the node again.
\<close>

theorem formatNode_twice:
  "(key \<noteq> RootGroupExecInfo \<and> key \<noteq> RootBasicExecInfo \<and> key \<noteq> CopExecInfo
      \<and> key \<noteq> Children \<longrightarrow>
      Get (formatNode L (formatNode L node)) key = Get (formatNode L node) key)
   \<and> MustArray (Get (formatNode L (formatNode L node)) Children)
       = map (formatNode L) (MustArray (Get (formatNode L node) Children))"
proof -
  have "setNA DiskBytes (setNA MemoryBytes (formatNode L node)) = formatNode L node"
    using formatNode_no_sentinel [of L node] by (simp add: setNA_idle)
  then show ?thesis
    by (simp add: Get_formatNode_other Get_formatFields_other
        MustArray_Get_formatNode_Children)
qed

definition basicInfoNode :: json where
  "basicInfoNode = JObj [(RootBasicExecInfo, JStr ''time:1s'')]"

lemma formatNode_basicInfoNode:
  "formatNode refLib basicInfoNode =
     JObj [(RootBasicExecInfo, JObj [(Time, JStr ''1s'')]), (RootGroupExecInfo, JArr []),
           (CopExecInfo, JObj [])]"
  by (simp add: basicInfoNode_def formatNode.simps formatChildrenNodes.simps formatFields_def
      needSetNA_def needJSONFormat_def setNA_def formatField_def Get_def Set_def putBack_def
      MustString_def MustArray_def MustStringArray_def formatJSON_time formatJSON_empty)

text \<open>
  C6, as stated, fails. A node whose basic summary is the text \<^verbatim>\<open>time:1s\<close>: the first
  application converts it into the object with the one key \<^verbatim>\<open>time\<close>; the second reads the
  object as the empty string, converts that into the empty object and overwrites the
  converted value with it.
\<close>

theorem formatNode_twice_counterexample:
  "Get (formatNode refLib basicInfoNode) RootBasicExecInfo = JObj [(Time, JStr ''1s'')]
   \<and> Get (formatNode refLib (formatNode refLib basicInfoNode)) RootBasicExecInfo = JObj []"
  by (simp add: formatNode_basicInfoNode)
    (simp add: formatNode.simps formatChildrenNodes.simps formatFields_def
      needSetNA_def needJSONFormat_def setNA_def formatField_def Get_def Set_def putBack_def
      MustString_def MustArray_def MustStringArray_def formatJSON_empty)

text \<open>The amended statement at the node above and the key \<^verbatim>\<open>diskBytes\<close>.\<close>

theorem formatNode_twice_witness:
  "Get (formatNode refLib (formatNode refLib basicInfoNode)) DiskBytes
     = Get (formatNode refLib basicInfoNode) DiskBytes"
  using formatNode_twice [of DiskBytes refLib basicInfoNode] by simp

section \<open>The duration field\<close>

lemma putBack_JObj: "\<exists>kvs1. putBack k v (JObj kvs) = JObj kvs1"
  by (simp add: putBack_def)

lemma Get_putBack_present: "Get n k \<noteq> JNull \<Longrightarrow> Get (putBack k v n) k = v"
  by (cases n) (auto simp: Get_def putBack_def map_of_upd_same split: option.splits)

lemma analyzeDurationNode_JObj:
  assumes "analyzeDurationNode L (JObj kvs) c = Inr (d, node1)"
  shows "\<exists>kvs1. node1 = Set Duration (JStr (durationString L d)) (JObj kvs1)"
proof -
  from assms obtain children1 where
    "node1 = Set Duration (JStr (durationString L d)) (putBack Children children1 (JObj kvs))"
    by (auto simp: analyzeDurationNode.simps Let_def split: sum.splits if_splits)
  then show ?thesis
    using putBack_JObj [of Children children1 kvs] by auto
qed

text \<open>
  C9, amended. A node that \<^verbatim>\<open>analyzeDurationNode\<close> visits leaves it with its duration field
  holding the reconciled duration, formatted. The root of the main tree is then written a
  second time: after the whole pass its duration field holds the text of its own
  \<^verbatim>\<open>rootBasicExecInfo.time\<close>, as it was read before the pass.
\<close>

theorem duration_field_written:
  "(analyzeDurationNode L (JObj kvs) c = Inr (d, node1) \<longrightarrow>
      Get node1 Duration = JStr (durationString L d))
   \<and> (analyzeDuration L vp = Inr vp1 \<and> Get vp MainTree = JObj kvs \<longrightarrow>
      Get (Get vp1 MainTree) Duration
        = JStr (MustString (GetPath (Get vp MainTree) [RootBasicExecInfo, Time])))"
proof (intro conjI impI)
  assume "analyzeDurationNode L (JObj kvs) c = Inr (d, node1)"
  from analyzeDurationNode_JObj [OF this] show "Get node1 Duration = JStr (durationString L d)"
    by (auto simp: Get_Set_same)
next
  assume a: "analyzeDuration L vp = Inr vp1 \<and> Get vp MainTree = JObj kvs"
  let ?rootTs = "MustString (GetPath (Get vp MainTree) [RootBasicExecInfo, Time])"
  from a obtain d main1 ctes1 where
    m: "analyzeDurationNode L (JObj kvs) newConcurrency = Inr (d, main1)" and
    vp1: "vp1 = putBack CteTrees ctes1 (putBack MainTree (Set Duration (JStr ?rootTs) main1) vp)"
    by (auto simp: analyzeDuration_def Let_def split: sum.splits)
  from analyzeDurationNode_JObj [OF m] obtain kvs1 where
    "main1 = Set Duration (JStr (durationString L d)) (JObj kvs1)" by auto
  then have "Get (Set Duration (JStr ?rootTs) main1) Duration = JStr ?rootTs"
    by (simp add: Set_def Get_def map_of_upd_same)
  moreover have "Get vp1 MainTree = Set Duration (JStr ?rootTs) main1"
    using a vp1 by (simp add: Get_putBack_other Get_putBack_present)
  ultimately show "Get (Get vp1 MainTree) Duration = JStr ?rootTs"
    by simp
qed

text \<open>
  A plan of two nodes: a root that reports 1s for itself, over a child that reports 2s.
\<close>

definition slowChild :: json where
  "slowChild =
     JObj [(OperatorName, JStr ''TableReader_5''),
           (RootBasicExecInfo, JObj [(Time, JStr ''2s'')])]"

definition fastRoot :: json where
  "fastRoot =
     JObj [(OperatorName, JStr ''Projection_3''),
           (RootBasicExecInfo, JObj [(Time, JStr ''1s'')]),
           (Children, JArr [slowChild])]"

definition twoNodePlan :: json where
  "twoNodePlan = JObj [(MainTree, fastRoot)]"

lemma refParseDuration_1s: "refParseDuration ''1s'' = Some 1000000000"
  by (simp add: refParseDuration_def isDigit_def unitNanos_def)

lemma refParseDuration_2s: "refParseDuration ''2s'' = Some 2000000000"
  by (simp add: refParseDuration_def isDigit_def unitNanos_def)

lemma showNat_digit: "n < 10 \<Longrightarrow> showNat n = [digitChar n]"
  by (subst showNat.simps) simp

lemma showNat_1: "showNat (Suc 0) = ''1''"
  by (subst showNat_digit) (simp_all add: digitChar_def)

lemma showNat_2: "showNat 2 = ''2''"
  by (subst showNat_digit) (simp_all add: digitChar_def)

lemma refDurationString_1s: "refDurationString 1000000000 = ''1s''"
  by (simp add: refDurationString_def fmtFrac_def showNat_1)

lemma refDurationString_2s: "refDurationString 2000000000 = ''2s''"
  by (simp add: refDurationString_def fmtFrac_def showNat_2)

lemma prod4_newConcurrency: "prod4 newConcurrency = 1"
  by (simp add: prod4_def newConcurrency_def mul64_def wrap64_def)

lemma getOperatorDuratuon_1s: "getOperatorDuratuon refLib ''1s'' newConcurrency = ''1s''"
  by (simp add: getOperatorDuratuon_def refLib_def refParseDuration_1s prod4_newConcurrency
      ofInt_def refDurationString_1s)

lemma getOperatorDuratuon_2s: "getOperatorDuratuon refLib ''2s'' newConcurrency = ''2s''"
  by (simp add: getOperatorDuratuon_def refLib_def refParseDuration_2s prod4_newConcurrency
      ofInt_def refDurationString_2s)

lemma attributedDuration_slowChild:
  "attributedDuration refLib slowChild newConcurrency = 2000000000"
  by (simp add: attributedDuration_def slowChild_def Get_def MustString_def
      getOperatorDuratuon_2s)
    (simp add: refLib_def refParseDuration_2s)

lemma attributedDuration_fastRoot:
  "attributedDuration refLib fastRoot newConcurrency = 1000000000"
  by (simp add: attributedDuration_def fastRoot_def Get_def MustString_def
      getOperatorDuratuon_1s)
    (simp add: refLib_def refParseDuration_1s)

lemma getOperatorType_slowChild: "getOperatorType slowChild = Default"
  by (simp add: getOperatorType_def slowChild_def Get_def MustString_def operatorOfName_def
      hasPrefix_def)

lemma getOperatorType_fastRoot: "getOperatorType fastRoot = Default"
  by (simp add: getOperatorType_def fastRoot_def Get_def MustString_def operatorOfName_def
      hasPrefix_def)

lemma getConcurrency_slowChild: "getConcurrency slowChild operator c = Inr c"
  by (simp add: getConcurrency_def slowChild_def Get_def MustArray_def)

lemma getConcurrency_fastRoot: "getConcurrency fastRoot operator c = Inr c"
  by (simp add: getConcurrency_def fastRoot_def Get_def MustArray_def)

lemma analyzeDurationNode_slowChild:
  "analyzeDurationNode refLib slowChild newConcurrency
     = Inr (2000000000, Set Duration (JStr ''2s'') slowChild)"
  by (simp add: analyzeDurationNode.simps attributedDuration_slowChild
      getOperatorType_slowChild getConcurrency_slowChild)
    (simp add: slowChild_def analyzeDurationNodes.simps Get_def MustArray_def putBack_def
      refLib_def refDurationString_2s)

lemma Get_fastRoot_Children: "Get fastRoot Children = JArr [slowChild]"
  by (simp add: fastRoot_def Get_def)

lemma analyzeDurationNode_fastRoot:
  "analyzeDurationNode refLib fastRoot newConcurrency
     = Inr (2000000000,
         Set Duration (JStr ''2s'')
           (putBack Children (JArr [Set Duration (JStr ''2s'') slowChild]) fastRoot))"
proof -
  have "analyzeDurationNodes refLib (JArr [slowChild]) Default newConcurrency
       = Inr (2000000000, JArr [Set Duration (JStr ''2s'') slowChild])"
    by (simp add: analyzeDurationNodes.simps collectDurations.simps MustArray_def
        childConcurrency_def analyzeDurationNode_slowChild maxDuration_def)
  then show ?thesis
    by (simp add: analyzeDurationNode.simps attributedDuration_fastRoot
        getOperatorType_fastRoot getConcurrency_fastRoot Get_fastRoot_Children)
      (simp add: refLib_def refDurationString_2s)
qed

lemma analyzeDuration_twoNodePlan:
  "analyzeDuration refLib twoNodePlan =
     Inr (JObj [(MainTree,
       JObj [(OperatorName, JStr ''Projection_3''),
             (RootBasicExecInfo, JObj [(Time, JStr ''1s'')]),
             (Children, JArr [
                JObj [(OperatorName, JStr ''TableReader_5''),
                      (RootBasicExecInfo, JObj [(Time, JStr ''2s'')]),
                      (Duration, JStr ''2s'')]]),
             (Duration, JStr ''1s'')])])"
  by (simp add: analyzeDuration_def twoNodePlan_def Get_def analyzeDurationNode_fastRoot)
    (simp add: fastRoot_def slowChild_def Get_def Set_def putBack_def MustString_def
      analyzeDurationNodes.simps MustArray_def)

text \<open>
  C9, as stated, fails at the root of the main tree. For the plan above the reconciled
  duration of the root is 2s, and \<^verbatim>\<open>analyzeDurationNode\<close> writes \<^verbatim>\<open>2s\<close>; \<^verbatim>\<open>analyzeDuration\<close>
  then writes the field again, and the root ends with the duration \<^verbatim>\<open>1s\<close>, its raw time,
  above a child whose duration is \<^verbatim>\<open>2s\<close>.
\<close>

theorem analyzeDuration_root_counterexample:
  "analyzeDurationNode refLib fastRoot newConcurrency
     = Inr (2000000000,
         Set Duration (JStr ''2s'')
           (putBack Children (JArr [Set Duration (JStr ''2s'') slowChild]) fastRoot))
   \<and> durationString refLib 2000000000 = ''2s''
   \<and> analyzeDuration refLib twoNodePlan =
     Inr (JObj [(MainTree,
       JObj [(OperatorName, JStr ''Projection_3''),
             (RootBasicExecInfo, JObj [(Time, JStr ''1s'')]),
             (Children, JArr [
                JObj [(OperatorName, JStr ''TableReader_5''),
                      (RootBasicExecInfo, JObj [(Time, JStr ''2s'')]),
                      (Duration, JStr ''2s'')]]),
             (Duration, JStr ''1s'')])])"
  by (simp add: analyzeDurationNode_fastRoot analyzeDuration_twoNodePlan)
    (simp add: refLib_def refDurationString_2s)

text \<open>The amended statement at the plan above.\<close>

theorem duration_field_written_witness:
  "Get (Set Duration (JStr ''2s'')
          (putBack Children (JArr [Set Duration (JStr ''2s'') slowChild]) fastRoot)) Duration
     = JStr (durationString refLib 2000000000)
   \<and> Get (Get (JObj [(MainTree,
       JObj [(OperatorName, JStr ''Projection_3''),
             (RootBasicExecInfo, JObj [(Time, JStr ''1s'')]),
             (Children, JArr [
                JObj [(OperatorName, JStr ''TableReader_5''),
                      (RootBasicExecInfo, JObj [(Time, JStr ''2s'')]),
                      (Duration, JStr ''2s'')]]),
             (Duration, JStr ''1s'')])]) MainTree) Duration
     = JStr (MustString (GetPath (Get twoNodePlan MainTree) [RootBasicExecInfo, Time]))"
proof -
  have root: "fastRoot = JObj [(OperatorName, JStr ''Projection_3''),
           (RootBasicExecInfo, JObj [(Time, JStr ''1s'')]),
           (Children, JArr [slowChild])]"
    by (simp add: fastRoot_def)
  have main: "Get twoNodePlan MainTree = JObj [(OperatorName, JStr ''Projection_3''),
           (RootBasicExecInfo, JObj [(Time, JStr ''1s'')]),
           (Children, JArr [slowChild])]"
    by (simp add: twoNodePlan_def Get_def fastRoot_def)
  note t = duration_field_written [of refLib "[(OperatorName, JStr ''Projection_3''),
           (RootBasicExecInfo, JObj [(Time, JStr ''1s'')]),
           (Children, JArr [slowChild])]" newConcurrency 2000000000
         "Set Duration (JStr ''2s'')
           (putBack Children (JArr [Set Duration (JStr ''2s'') slowChild]) fastRoot)"
         twoNodePlan]
  from t analyzeDurationNode_fastRoot analyzeDuration_twoNodePlan main root
  show ?thesis by simp
qed

section \<open>Where the duration analyzer returns an error\<close>















lemma refParseDuration_0s: "refParseDuration ''0s'' = Some 0"
  by (simp add: refParseDuration_def isDigit_def unitNanos_def)

lemma attributedDuration_untimed:
  "MustString (GetPath node [RootBasicExecInfo, Time]) = [] \<Longrightarrow>
   MustString (GetPath node [CopExecInfo, MustString (GetPath node [StoreType]) @ ''_task'', ''time'']) = [] \<Longrightarrow>
   MustString (GetPath node [TaskType]) = [] \<Longrightarrow>
   attributedDuration refLib node c = 0"
  by (simp add: attributedDuration_def getCopTaskDuratuon_def Let_def)
    (simp add: refLib_def refParseDuration_0s)





section \<open>The estimation-error rule\<close>

lemma stringElems_JStr: "stringElems (map JStr ds) = Some ds"
  by (induction ds) simp_all

lemma MustStringArray_JStr: "MustStringArray (JArr (map JStr ds)) = ds"
  by (simp add: MustStringArray_def stringElems_JStr)

lemma operatorOfName_Nil: "operatorOfName [] = Default"
  by (simp add: operatorOfName_def hasPrefix_def)

lemma getOperatorType_JObj: "getOperatorType node \<noteq> Default \<Longrightarrow> \<exists>kvs. node = JObj kvs"
  by (cases node) (simp_all add: getOperatorType_def Get_def MustString_def operatorOfName_Nil)

lemma estimation_not_pseudo: "estimationErrorMessage \<notin> set (pseudoStatsDiagnosis L node)"
  by (simp add: pseudoStatsDiagnosis_def Let_def estimationErrorMessage_def pseudoStatsMessage_def)

lemma estimation_not_disk: "estimationErrorMessage \<notin> set (diskSpillDiagnosis node)"
  by (simp add: diskSpillDiagnosis_def estimationErrorMessage_def diskSpillMessage_def)

lemma estimation_not_addIndex: "estimationErrorMessage \<noteq> addIndexMessage"
  by (simp add: estimationErrorMessage_def addIndexMessage_def)

lemma estimation_not_useTiFlash: "estimationErrorMessage \<noteq> useTiFlashMessage"
  by (simp add: estimationErrorMessage_def useTiFlashMessage_def)

definition scanOrSelection :: "operator \<Rightarrow> bool" where
  "scanOrSelection operator =
     (operator = IndexFullScan \<or> operator = IndexRangeScan \<or> operator = TableFullScan
      \<or> operator = TableRangeScan \<or> operator = TableRowIDScan \<or> operator = Selection)"

lemma operatorDiagnosis_scan:
  assumes "scanOrSelection operator"
  shows "\<exists>rest. operatorDiagnosis L node operator operatorInfo = Inr rest
           \<and> estimationErrorMessage \<notin> set rest"
  using assms
  by (auto simp: scanOrSelection_def operatorDiagnosis_def Let_def estimation_not_addIndex
      estimation_not_useTiFlash)

text \<open>
  The rule away from zero. For a scan or selection node whose children leave the
  needs-statistics-check flag set, and whose actual-row and estimated-row counts, as
  \<^verbatim>\<open>MustFloat64\<close> reads them, are both different from zero, \<^verbatim>\<open>diagnosticOperatorNode\<close> returns
  and the diagnosis it writes holds the estimation-error message exactly when one of the two
  counts, divided by the other, is greater than 100.
\<close>

lemma estimation_error_rule_nonzero:
  assumes "diagnosticOperatorNodes L (Get node Children) diagOp = Inr (diagOp1, children1)"
    and "needUdateStatistics diagOp1"
    and "scanOrSelection (getOperatorType node)"
    and "\<not> feq L (MustFloat64 L (Get node ActRows)) (ofRat L 0)"
    and "\<not> feq L (MustFloat64 L (Get node EstRows)) (ofRat L 0)"
  shows "\<exists>diagOp2 node1.
      diagnosticOperatorNode L node diagOp = Inr (diagOp2, node1) \<and>
      (estimationErrorMessage \<in> set (MustStringArray (Get node1 Diagnosis)) \<longleftrightarrow>
         fless L (ofRat L 100)
           (fdiv L (MustFloat64 L (Get node ActRows)) (MustFloat64 L (Get node EstRows)))
         \<or> fless L (ofRat L 100)
           (fdiv L (MustFloat64 L (Get node EstRows)) (MustFloat64 L (Get node ActRows))))"
proof -
  let ?op = "getOperatorType node"
  let ?node1 = "putBack Children children1 node"
  let ?a = "MustFloat64 L (Get node ActRows)"
  let ?e = "MustFloat64 L (Get node EstRows)"
  let ?far = "fless L (ofRat L 100) (fdiv L ?a ?e) \<or> fless L (ofRat L 100) (fdiv L ?e ?a)"
  from assms(3) have "?op \<noteq> Default"
    by (auto simp: scanOrSelection_def)
  then obtain kvs where node: "node = JObj kvs"
    using getOperatorType_JObj by blast
  then obtain kvs1 where node1: "?node1 = JObj kvs1"
    using putBack_JObj [of Children children1 kvs] by auto
  have fields: "Get ?node1 ActRows = Get node ActRows" "Get ?node1 EstRows = Get node EstRows"
    by (simp_all add: Get_putBack_other)
  have est: "estimationDiagnosis L ?node1 ?op diagOp1
      = (if ?far then [estimationErrorMessage] else [], diagOp1\<lparr>needUdateStatistics := True\<rparr>)"
    using assms(2-5) by (simp add: estimationDiagnosis_def scanOrSelection_def fields Let_def)
  from operatorDiagnosis_scan [OF assms(3)] obtain rest where
    rest: "operatorDiagnosis L ?node1 ?op (MustString (Get node OperatorInfo)) = Inr rest"
      "estimationErrorMessage \<notin> set rest"
    by blast
  define diagnosis where "diagnosis = (pseudoStatsDiagnosis L node @ diskSpillDiagnosis node)
      @ (if ?far then [estimationErrorMessage] else []) @ rest"
  have run: "diagnosticOperatorNode L node diagOp
      = Inr (diagOp1\<lparr>needUdateStatistics := True\<rparr>,
             Set Diagnosis (JArr (map JStr diagnosis)) ?node1)"
    using assms(1) est rest(1) by (simp add: diagnosticOperatorNode.simps Let_def diagnosis_def)
  have mem: "estimationErrorMessage \<in> set diagnosis \<longleftrightarrow> ?far"
    using rest(2) estimation_not_pseudo [of L node] estimation_not_disk [of node]
    by (simp add: diagnosis_def)
  have "Get (Set Diagnosis (JArr (map JStr diagnosis)) ?node1) Diagnosis
      = JArr (map JStr diagnosis)"
    using node1 by (simp add: Get_Set_same)
  then have "MustStringArray (Get (Set Diagnosis (JArr (map JStr diagnosis)) ?node1) Diagnosis)
      = diagnosis"
    by (simp only: MustStringArray_JStr)
  with mem have "estimationErrorMessage
        \<in> set (MustStringArray (Get (Set Diagnosis (JArr (map JStr diagnosis)) ?node1) Diagnosis))
      \<longleftrightarrow> ?far"
    by simp
  with run show ?thesis by blast
qed

text \<open>
  A table scan without children that read no row where 500 were estimated, with the
  actual-row count as a JSON number and, as the duration pass reads the field, as a JSON
  string.
\<close>

definition emptyScan :: json where
  "emptyScan =
     JObj [(OperatorName, JStr ''TableFullScan_5''), (DiskBytes, JStr ''N/A''),
           (ActRows, JNum ''0''), (EstRows, JNum ''500'')]"

definition emptyScanText :: json where
  "emptyScanText =
     JObj [(OperatorName, JStr ''TableFullScan_5''), (DiskBytes, JStr ''N/A''),
           (ActRows, JStr ''0''), (EstRows, JNum ''500'')]"

lemma refParseFloat_500: "refParseFloat ''500'' = Some (Fin 500)"
  by (simp add: refParseFloat_def isDigit_def)

lemma operatorOfName_TableFullScan: "operatorOfName ''TableFullScan_5'' = TableFullScan"
  by (simp add: operatorOfName_def hasPrefix_def)

lemma diagnosticOperatorNodes_leaf:
  "diagnosticOperatorNodes L JNull diagOp = Inr (diagOp\<lparr>needUdateStatistics := True\<rparr>, JNull)"
  by (simp add: diagnosticOperatorNodes.simps MustArray_def)

lemma diagnosticOperatorNode_emptyScan:
  "diagnosticOperatorNode refLib emptyScan newDiagnosticOperation
     = Inr (\<lparr>needUdateStatistics = True\<rparr>, Set Diagnosis (JArr []) emptyScan)"
proof -
  have op: "getOperatorType emptyScan = TableFullScan"
    by (simp add: getOperatorType_def emptyScan_def Get_def MustString_def
        operatorOfName_TableFullScan)
  have ch: "Get emptyScan Children = JNull"
    by (simp add: emptyScan_def Get_def)
  have pb: "putBack Children JNull emptyScan = emptyScan"
    by (simp add: emptyScan_def putBack_def)
  have pseudo: "pseudoStatsDiagnosis refLib emptyScan = []"
    by (simp add: pseudoStatsDiagnosis_def emptyScan_def Get_def MustString_def contains_def)
  have disk: "diskSpillDiagnosis emptyScan = []"
    by (simp add: diskSpillDiagnosis_def emptyScan_def Get_def MustString_def)
  have est: "estimationDiagnosis refLib emptyScan TableFullScan \<lparr>needUdateStatistics = True\<rparr>
      = ([], \<lparr>needUdateStatistics = True\<rparr>)"
    by (simp add: estimationDiagnosis_def emptyScan_def Get_def MustFloat64_def refLib_def
        refParseFloat_0 refParseFloat_500)
  have rest: "operatorDiagnosis refLib emptyScan TableFullScan info = Inr []" for info
    by (simp add: operatorDiagnosis_def emptyScan_def Get_def MustString_def)
  show ?thesis
    by (simp add: diagnosticOperatorNode.simps op ch diagnosticOperatorNodes_leaf pb pseudo disk
        est rest newDiagnosticOperation_def)
qed

lemma diagnosticOperatorNode_emptyScanText:
  "diagnosticOperatorNode refLib emptyScanText newDiagnosticOperation
     = Inr (\<lparr>needUdateStatistics = True\<rparr>, Set Diagnosis (JArr []) emptyScanText)"
proof -
  have op: "getOperatorType emptyScanText = TableFullScan"
    by (simp add: getOperatorType_def emptyScanText_def Get_def MustString_def
        operatorOfName_TableFullScan)
  have ch: "Get emptyScanText Children = JNull"
    by (simp add: emptyScanText_def Get_def)
  have pb: "putBack Children JNull emptyScanText = emptyScanText"
    by (simp add: emptyScanText_def putBack_def)
  have pseudo: "pseudoStatsDiagnosis refLib emptyScanText = []"
    by (simp add: pseudoStatsDiagnosis_def emptyScanText_def Get_def MustString_def contains_def)
  have disk: "diskSpillDiagnosis emptyScanText = []"
    by (simp add: diskSpillDiagnosis_def emptyScanText_def Get_def MustString_def)
  have est: "estimationDiagnosis refLib emptyScanText TableFullScan
        \<lparr>needUdateStatistics = True\<rparr>
      = ([], \<lparr>needUdateStatistics = True\<rparr>)"
    by (simp add: estimationDiagnosis_def emptyScanText_def Get_def MustFloat64_def refLib_def
        refParseFloat_500)
  have rest: "operatorDiagnosis refLib emptyScanText TableFullScan info = Inr []" for info
    by (simp add: operatorDiagnosis_def emptyScanText_def Get_def MustString_def)
  show ?thesis
    by (simp add: diagnosticOperatorNode.simps op ch diagnosticOperatorNodes_leaf pb pseudo disk
        est rest newDiagnosticOperation_def)
qed

text \<open>
  C3. The scans above have no children, so the flag is set; they are table scans, the
  actual-row count is 0 and the estimated-row count is 500. The zero is not treated as 1
  beside the 500: \<^verbatim>\<open>actRows = +1; estRows = +1\<close> replaces both counts by 1, the two
  quotients are 1, and the estimation-error message is not appended; the diagnosis written
  is empty. It is the same whether the count 0 is a JSON number or a JSON string, which
  \<^verbatim>\<open>MustFloat64\<close> reads as 0.
\<close>

theorem estimation_error_zero_rows:
  "getOperatorType emptyScan = TableFullScan
   \<and> diagnosticOperatorNodes refLib (Get emptyScan Children) newDiagnosticOperation
       = Inr (\<lparr>needUdateStatistics = True\<rparr>, JNull)
   \<and> diagnosticOperatorNode refLib emptyScan newDiagnosticOperation
       = Inr (\<lparr>needUdateStatistics = True\<rparr>, Set Diagnosis (JArr []) emptyScan)
   \<and> getOperatorType emptyScanText = TableFullScan
   \<and> diagnosticOperatorNodes refLib (Get emptyScanText Children) newDiagnosticOperation
       = Inr (\<lparr>needUdateStatistics = True\<rparr>, JNull)
   \<and> diagnosticOperatorNode refLib emptyScanText newDiagnosticOperation
       = Inr (\<lparr>needUdateStatistics = True\<rparr>, Set Diagnosis (JArr []) emptyScanText)"
proof -
  have "getOperatorType emptyScan = TableFullScan"
    by (simp add: getOperatorType_def emptyScan_def Get_def MustString_def
        operatorOfName_TableFullScan)
  moreover have "getOperatorType emptyScanText = TableFullScan"
    by (simp add: getOperatorType_def emptyScanText_def Get_def MustString_def
        operatorOfName_TableFullScan)
  moreover have "Get emptyScan Children = JNull"
    by (simp add: emptyScan_def Get_def)
  moreover have "Get emptyScanText Children = JNull"
    by (simp add: emptyScanText_def Get_def)
  moreover have "diagnosticOperatorNodes refLib JNull newDiagnosticOperation
       = Inr (\<lparr>needUdateStatistics = True\<rparr>, JNull)"
    by (simp add: diagnosticOperatorNodes_leaf newDiagnosticOperation_def)
  ultimately show ?thesis
    using diagnosticOperatorNode_emptyScan diagnosticOperatorNode_emptyScanText by simp
qed

section \<open>The state handed to the probe child of an Apply node\<close>

text \<open>The build child of an Apply node, having read 0 rows.\<close>

definition zeroRowBuild :: json where
  "zeroRowBuild = JObj [(DriverSide, JStr ''build''), (ActRows, JStr ''0'')]"

lemma analyzeDurationNode_zeroRowBuild:
  "analyzeDurationNode refLib zeroRowBuild c
     = Inr (0, Set Duration (JStr ''0s'') zeroRowBuild)"
proof -
  have "attributedDuration refLib zeroRowBuild c = 0"
    by (rule attributedDuration_untimed)
      (simp_all add: zeroRowBuild_def Get_def MustString_def)
  moreover have "getConcurrency zeroRowBuild operator c = Inr c" for operator
    by (simp add: getConcurrency_def zeroRowBuild_def Get_def MustArray_def)
  moreover have "Get zeroRowBuild Children = JNull"
    by (simp add: zeroRowBuild_def Get_def)
  moreover have "putBack Children JNull zeroRowBuild = zeroRowBuild"
    by (simp add: zeroRowBuild_def putBack_def)
  moreover have "durationString refLib 0 = ''0s''"
    by (simp add: refLib_def refDurationString_def)
  ultimately show ?thesis
    by (simp add: analyzeDurationNode.simps analyzeDurationNodes.simps MustArray_def)
qed

lemma probeConcurrency_zeroRowBuild:
  "probeConcurrency refLib (Set Duration (JStr ''0s'') zeroRowBuild) newConcurrency
   = Inr (newConcurrency\<lparr>applyConcurrency := 0\<rparr>)"
  by (simp add: probeConcurrency_def refLib_def zeroRowBuild_def Set_def Get_def MustArray_def
      MustString_def refParseFloat_0 newConcurrency_def)

text \<open>
  C2. The Apply branch, entered with the initial state (every multiplier 1) on the build
  child above and on any probe child, whatever its other fields \<open>kvs\<close> are: the build
  child reports 0 actual rows, so the task count is \<^verbatim>\<open>int(0 * (1 - 0/100))\<close> = 0, it is
  below the apply multiplier 1, the state derived for the probe side has the apply
  multiplier 0, and that is the state the probe child is analysed with.
\<close>

theorem apply_probe_multiplier_zero:
  "probeConcurrency refLib (Set Duration (JStr ''0s'') zeroRowBuild) newConcurrency
     = Inr (newConcurrency\<lparr>applyConcurrency := 0\<rparr>)
   \<and> applyConcurrency (newConcurrency\<lparr>applyConcurrency := 0\<rparr>) = 0
   \<and> collectDurations refLib [zeroRowBuild, JObj ((DriverSide, JStr ''probe'') # kvs)] Apply
         newConcurrency
     = (case analyzeDurationNode refLib (JObj ((DriverSide, JStr ''probe'') # kvs))
               (newConcurrency\<lparr>applyConcurrency := 0\<rparr>) of
          Inl f \<Rightarrow> Inl f
        | Inr (d, n2) \<Rightarrow> Inr ([0, d], [Set Duration (JStr ''0s'') zeroRowBuild, n2]))"
proof -
  have b: "MustString (Get zeroRowBuild DriverSide) = ''build''"
    by (simp add: zeroRowBuild_def Get_def MustString_def)
  have p: "MustString (Get (JObj ((DriverSide, JStr ''probe'') # kvs)) DriverSide) = ''probe''"
    by (simp add: Get_def MustString_def)
  have "collectDurations refLib [zeroRowBuild, JObj ((DriverSide, JStr ''probe'') # kvs)] Apply
         newConcurrency
     = (case analyzeDurationNode refLib (JObj ((DriverSide, JStr ''probe'') # kvs))
               (newConcurrency\<lparr>applyConcurrency := 0\<rparr>) of
          Inl f \<Rightarrow> Inl f
        | Inr (d, n2) \<Rightarrow> Inr ([0, d], [Set Duration (JStr ''0s'') zeroRowBuild, n2]))"
    by (simp add: collectDurations.simps b p analyzeDurationNode_zeroRowBuild
        probeConcurrency_zeroRowBuild split: sum.splits)
  then show ?thesis
    by (simp add: probeConcurrency_zeroRowBuild)
qed

section \<open>Defaults and errors of the duration analyzer\<close>




















section \<open>The durations the analyzer reports\<close>

lemma sorted_le_last: "sorted xs \<Longrightarrow> y \<in> set xs \<Longrightarrow> y \<le> last (xs :: int list)"
  by (induction xs) auto

lemma maxDuration_Inr:
  assumes "maxDuration durations = Inr d"
  shows "durations \<noteq> [] \<and> d = Max (set durations)"
proof -
  from assms have ne: "durations \<noteq> []"
    by (auto simp: maxDuration_def)
  then have "sort durations \<noteq> []"
    by (metis length_0_conv length_sort)
  then have "hd (rev (sort durations)) = last (sort durations)"
    by (simp add: hd_rev)
  moreover from assms ne have "d = hd (rev (sort durations))"
    by (auto simp: maxDuration_def split: list.splits)
  moreover have "last (sort durations) = Max (set (sort durations))"
  proof (rule sym, rule Max_eqI)
    show "finite (set (sort durations))" by simp
    show "\<And>y. y \<in> set (sort durations) \<Longrightarrow> y \<le> last (sort durations)"
      using sorted_le_last [of "sort durations"] by simp
    show "last (sort durations) \<in> set (sort durations)"
      using last_in_set [OF \<open>sort durations \<noteq> []\<close>] .
  qed
  ultimately show ?thesis using ne by simp
qed

lemma analyzeEach_Inr:
  "analyzeEach L xs operator c = Inr (ds, xs1) \<Longrightarrow>
   length ds = length xs \<and> length xs1 = length xs \<and>
   (\<forall>i<length xs.
      analyzeDurationNode L (xs ! i) (childConcurrency operator (xs ! i) c)
        = Inr (ds ! i, xs1 ! i))"
proof (induction xs arbitrary: ds xs1)
  case Nil
  then show ?case by simp
next
  case (Cons n ns)
  from Cons.prems obtain d n1 ds' ns1 where
    n: "analyzeDurationNode L n (childConcurrency operator n c) = Inr (d, n1)" and
    ns: "analyzeEach L ns operator c = Inr (ds', ns1)" and
    ds: "ds = d # ds'" "xs1 = n1 # ns1"
    by (auto split: sum.splits)
  from Cons.IH [OF ns] have IH: "length ds' = length ns" "length ns1 = length ns"
    "\<forall>i<length ns.
       analyzeDurationNode L (ns ! i) (childConcurrency operator (ns ! i) c)
         = Inr (ds' ! i, ns1 ! i)"
    by simp_all
  show ?case
  proof (intro conjI allI impI)
    show "length ds = length (n # ns)" using IH(1) ds by simp
  next
    show "length xs1 = length (n # ns)" using IH(2) ds by simp
  next
    fix i assume "i < length (n # ns)"
    then show "analyzeDurationNode L ((n # ns) ! i)
                  (childConcurrency operator ((n # ns) ! i) c) = Inr (ds ! i, xs1 ! i)"
      using n IH(3) ds by (cases i) auto
  qed
qed

lemma collectDurations_Apply_Inr:
  assumes "collectDurations L xs Apply c1 = Inr (durations, xs1)"
  shows "case firstIndex (\<lambda>n. MustString (Get n DriverSide) = ''build'') xs of
       None \<Rightarrow>
         (case firstIndex (\<lambda>n. MustString (Get n DriverSide) = ''probe'') xs of
            None \<Rightarrow> durations = [] \<and> xs1 = xs
          | Some j \<Rightarrow> \<exists>d2 n2.
              analyzeDurationNode L (xs ! j) c1 = Inr (d2, n2)
              \<and> durations = [d2] \<and> xs1 = xs[j := n2])
     | Some i \<Rightarrow> \<exists>d1 n1 c2.
         analyzeDurationNode L (xs ! i) (c1\<lparr>applyConcurrency := 1\<rparr>) = Inr (d1, n1)
         \<and> probeConcurrency L n1 c1 = Inr c2
         \<and> (case firstIndex (\<lambda>n. MustString (Get n DriverSide) = ''probe'') xs of
              None \<Rightarrow> durations = [d1] \<and> xs1 = xs[i := n1]
            | Some j \<Rightarrow> \<exists>d2 n2.
                analyzeDurationNode L (xs ! j) c2 = Inr (d2, n2)
                \<and> durations = [d1, d2] \<and> xs1 = xs[i := n1, j := n2])"
  using assms
  by (auto simp: collectDurations.simps split: option.splits sum.splits)

lemma attributedDuration_timed:
  assumes "MustString (GetPath node [RootBasicExecInfo, Time]) \<noteq> []"
    and "parseDuration L (MustString (GetPath node [RootBasicExecInfo, Time])) = Some t"
  shows "attributedDuration L node c
    = (case parseDuration L (durationString L (toInt L (fdiv L (ofInt L t)
          (ofInt L (mul64 (mul64 (mul64 (joinConcurrency c) (tableConcurrency c))
             (applyConcurrency c)) (shuffleConcurrency c)))))) of
         None \<Rightarrow> 0 | Some own \<Rightarrow> own)"
  using assms
  by (simp add: attributedDuration_def getOperatorDuratuon_def prod4_def Let_def)

lemma analyzeDuration_main:
  assumes "analyzeDuration L vp = Inr vp1" and "Get vp MainTree = JObj kvs"
  shows "\<exists>d main1. analyzeDurationNode L (Get vp MainTree) newConcurrency = Inr (d, main1)
     \<and> Get vp1 MainTree
         = Set Duration (JStr (MustString (GetPath (Get vp MainTree) [RootBasicExecInfo, Time])))
             main1"
proof -
  let ?rootTs = "MustString (GetPath (Get vp MainTree) [RootBasicExecInfo, Time])"
  from assms obtain d main1 ctes1 where
    m: "analyzeDurationNode L (Get vp MainTree) newConcurrency = Inr (d, main1)" and
    vp1: "vp1 = putBack CteTrees ctes1 (putBack MainTree (Set Duration (JStr ?rootTs) main1) vp)"
    by (auto simp: analyzeDuration_def Let_def split: sum.splits)
  have "Get vp1 MainTree = Set Duration (JStr ?rootTs) main1"
    using assms(2) vp1 by (simp add: Get_putBack_other Get_putBack_present)
  with m show ?thesis by blast
qed

lemma analyzeDurationNode_Inr:
  assumes "analyzeDurationNode L node c = Inr (d, node1)"
  shows "\<exists>c1 sub children1.
     getConcurrency node (getOperatorType node) c = Inr c1
     \<and> analyzeDurationNodes L (Get node Children) (getOperatorType node) c1 = Inr (sub, children1)
     \<and> d = max (attributedDuration L node c) sub
     \<and> node1 = Set Duration (JStr (durationString L d)) (putBack Children children1 node)"
proof -
  from assms obtain c1 where
    c1: "getConcurrency node (getOperatorType node) c = Inr c1"
    by (auto simp: analyzeDurationNode.simps Let_def split: sum.splits)
  with assms obtain sub children1 where
    sub: "analyzeDurationNodes L (Get node Children) (getOperatorType node) c1
      = Inr (sub, children1)"
    by (auto simp: analyzeDurationNode.simps Let_def split: sum.splits)
  from assms c1 sub have
    "d = (if attributedDuration L node c < sub then sub else attributedDuration L node c)"
    "node1 = Set Duration (JStr (durationString L d)) (putBack Children children1 node)"
    by (auto simp: analyzeDurationNode.simps Let_def)
  then have "d = max (attributedDuration L node c) sub"
    "node1 = Set Duration (JStr (durationString L d)) (putBack Children children1 node)"
    by (simp_all add: max_def)
  with c1 sub show ?thesis by blast
qed

lemma analyzeDurationNodes_Inr:
  assumes "analyzeDurationNodes L nodes operator c1 = Inr (sub, children1)"
  shows "(MustArray nodes = [] \<longrightarrow> sub = 0 \<and> children1 = nodes)
     \<and> (MustArray nodes \<noteq> [] \<longrightarrow>
          (\<exists>durations xs1.
             collectDurations L (MustArray nodes) operator c1 = Inr (durations, xs1)
             \<and> durations \<noteq> [] \<and> sub = Max (set durations) \<and> children1 = JArr xs1))"
proof (cases "MustArray nodes = []")
  case True
  with assms show ?thesis by (simp add: analyzeDurationNodes.simps)
next
  case False
  with assms obtain durations xs1 where
    col: "collectDurations L (MustArray nodes) operator c1 = Inr (durations, xs1)" and
    mx: "maxDuration durations = Inr sub" and c: "children1 = JArr xs1"
    by (auto simp: analyzeDurationNodes.simps Let_def split: sum.splits)
  from maxDuration_Inr [OF mx] col c False show ?thesis by blast
qed


lemma childConcurrency_cases:
  "childConcurrency operator n c1
   = (if (operator = IndexJoin \<or> operator = IndexMergeJoin \<or> operator = IndexHashJoin)
         \<and> MustString (Get n DriverSide) \<noteq> ''probe''
      then c1\<lparr>joinConcurrency := 1\<rparr>
      else if (operator = IndexLookUpReader \<or> operator = IndexMergeReader)
         \<and> MustString (Get n DriverSide) \<noteq> ''probe''
      then c1\<lparr>tableConcurrency := 1\<rparr>
      else if operator = ShuffleReceiver then c1\<lparr>shuffleConcurrency := 1\<rparr>
      else c1)"
  by (auto simp: childConcurrency_def)

lemma analyzeDurationNode_field:
  assumes "analyzeDurationNode L node c = Inr (d, node1)" and "node = JObj kvs"
  shows "Get node1 Duration = JStr (durationString L d)"
  using analyzeDurationNode_JObj [of L kvs c d node1] assms
  by (auto simp: Get_Set_same)

lemma analyzeDurationNode_nonempty:
  assumes c1: "getConcurrency node (getOperatorType node) c = Inr c1"
    and sub: "analyzeDurationNodes L (Get node Children) (getOperatorType node) c1
      = Inr (sub, children1)"
    and d: "d = max (attributedDuration L node c) sub"
    and node1: "node1 = Set Duration (JStr (durationString L d)) (putBack Children children1 node)"
    and ne: "MustArray (Get node Children) \<noteq> []"
  shows "\<exists>durations xs1.
       Get node1 Children = JArr xs1
     \<and> length xs1 = length (MustArray (Get node Children))
     \<and> durations \<noteq> [] \<and> sub = Max (set durations) \<and> (\<forall>x\<in>set durations. x \<le> d)
     \<and> (getOperatorType node \<noteq> Apply \<longrightarrow>
          length durations = length (MustArray (Get node Children))
          \<and> (\<forall>i<length (MustArray (Get node Children)).
               analyzeDurationNode L (MustArray (Get node Children) ! i)
                 (if (getOperatorType node = IndexJoin \<or> getOperatorType node = IndexMergeJoin
                      \<or> getOperatorType node = IndexHashJoin)
                     \<and> MustString (Get (MustArray (Get node Children) ! i) DriverSide) \<noteq> ''probe''
                  then c1\<lparr>joinConcurrency := 1\<rparr>
                  else if (getOperatorType node = IndexLookUpReader
                      \<or> getOperatorType node = IndexMergeReader)
                     \<and> MustString (Get (MustArray (Get node Children) ! i) DriverSide) \<noteq> ''probe''
                  then c1\<lparr>tableConcurrency := 1\<rparr>
                  else if getOperatorType node = ShuffleReceiver
                  then c1\<lparr>shuffleConcurrency := 1\<rparr>
                  else c1)
               = Inr (durations ! i, xs1 ! i)))
     \<and> (getOperatorType node = Apply \<longrightarrow>
          (case firstIndex (\<lambda>n. MustString (Get n DriverSide) = ''build'')
                  (MustArray (Get node Children)) of
             None \<Rightarrow>
               (case firstIndex (\<lambda>n. MustString (Get n DriverSide) = ''probe'')
                       (MustArray (Get node Children)) of
                  None \<Rightarrow> False
                | Some j \<Rightarrow> \<exists>d2 n2.
                    analyzeDurationNode L (MustArray (Get node Children) ! j) c1 = Inr (d2, n2)
                    \<and> durations = [d2] \<and> xs1 = (MustArray (Get node Children))[j := n2])
           | Some i \<Rightarrow> \<exists>d1 n1 c2.
               analyzeDurationNode L (MustArray (Get node Children) ! i)
                 (c1\<lparr>applyConcurrency := 1\<rparr>) = Inr (d1, n1)
               \<and> probeConcurrency L n1 c1 = Inr c2
               \<and> (case firstIndex (\<lambda>n. MustString (Get n DriverSide) = ''probe'')
                         (MustArray (Get node Children)) of
                    None \<Rightarrow> durations = [d1] \<and> xs1 = (MustArray (Get node Children))[i := n1]
                  | Some j \<Rightarrow> \<exists>d2 n2.
                      analyzeDurationNode L (MustArray (Get node Children) ! j) c2 = Inr (d2, n2)
                      \<and> durations = [d1, d2]
                      \<and> xs1 = (MustArray (Get node Children))[i := n1, j := n2])))"
proof -
  let ?op = "getOperatorType node"
  let ?xs = "MustArray (Get node Children)"
  from analyzeDurationNodes_Inr [OF sub] ne obtain durations xs1 where
    col: "collectDurations L ?xs ?op c1 = Inr (durations, xs1)" and
    m: "durations \<noteq> []" "sub = Max (set durations)" and
    ch: "children1 = JArr xs1"
    by blast
  from ne have "Get node Children \<noteq> JNull"
    by (auto simp: MustArray_def)
  then have kids: "Get node1 Children = JArr xs1"
    using node1 ch by (simp add: Get_Set_other Get_putBack_present)
  have le: "\<forall>x\<in>set durations. x \<le> d"
  proof
    fix x assume "x \<in> set durations"
    then have "x \<le> Max (set durations)" by simp
    then show "x \<le> d" using m d by simp
  qed
  have each: "length durations = length ?xs \<and> length xs1 = length ?xs
          \<and> (\<forall>i<length ?xs.
               analyzeDurationNode L (?xs ! i)
                 (if (?op = IndexJoin \<or> ?op = IndexMergeJoin \<or> ?op = IndexHashJoin)
                     \<and> MustString (Get (?xs ! i) DriverSide) \<noteq> ''probe''
                  then c1\<lparr>joinConcurrency := 1\<rparr>
                  else if (?op = IndexLookUpReader \<or> ?op = IndexMergeReader)
                     \<and> MustString (Get (?xs ! i) DriverSide) \<noteq> ''probe''
                  then c1\<lparr>tableConcurrency := 1\<rparr>
                  else if ?op = ShuffleReceiver
                  then c1\<lparr>shuffleConcurrency := 1\<rparr>
                  else c1)
               = Inr (durations ! i, xs1 ! i))" if "?op \<noteq> Apply"
  proof -
    from col that have "analyzeEach L ?xs ?op c1 = Inr (durations, xs1)"
      by (simp add: collectDurations.simps)
    from analyzeEach_Inr [OF this] show ?thesis
      unfolding childConcurrency_cases .
  qed
  have app: "(case firstIndex (\<lambda>n. MustString (Get n DriverSide) = ''build'') ?xs of
             None \<Rightarrow>
               (case firstIndex (\<lambda>n. MustString (Get n DriverSide) = ''probe'') ?xs of
                  None \<Rightarrow> False
                | Some j \<Rightarrow> \<exists>d2 n2.
                    analyzeDurationNode L (?xs ! j) c1 = Inr (d2, n2)
                    \<and> durations = [d2] \<and> xs1 = ?xs[j := n2])
           | Some i \<Rightarrow> \<exists>d1 n1 c2.
               analyzeDurationNode L (?xs ! i) (c1\<lparr>applyConcurrency := 1\<rparr>) = Inr (d1, n1)
               \<and> probeConcurrency L n1 c1 = Inr c2
               \<and> (case firstIndex (\<lambda>n. MustString (Get n DriverSide) = ''probe'') ?xs of
                    None \<Rightarrow> durations = [d1] \<and> xs1 = ?xs[i := n1]
                  | Some j \<Rightarrow> \<exists>d2 n2.
                      analyzeDurationNode L (?xs ! j) c2 = Inr (d2, n2)
                      \<and> durations = [d1, d2] \<and> xs1 = ?xs[i := n1, j := n2]))
          \<and> length xs1 = length ?xs" if "?op = Apply"
  proof -
    from col that have "collectDurations L ?xs Apply c1 = Inr (durations, xs1)" by simp
    from collectDurations_Apply_Inr [OF this] m(1) show ?thesis
      by (auto split: option.splits)
  qed
  have len: "length xs1 = length ?xs"
    using each app by (cases "?op = Apply") simp_all
  from kids len m le each app show ?thesis
    by (intro exI [of _ durations] exI [of _ xs1] conjI impI) simp_all
qed

text \<open>
  C1, amended. When \<^verbatim>\<open>analyzeDurationNode\<close> returns a duration for a node, that duration is
  the maximum of the node's own attributed duration and of the durations returned for the
  children that were analysed (0 when it has none), so it is at least each of them; it is
  what the pass writes, formatted, to the duration field of the node, and the children
  field holds the children as their analysis left them.
  \<^item> The own attributed duration of a node with a time that parses is that time divided
    by the product of the join, table, apply and shuffle multipliers of the incoming
    state, formatted and parsed again.
  \<^item> Under an operator other than Apply every child is analysed, in the state the node
    resolved; a child of an index join that is not tagged \<^verbatim>\<open>probe\<close> gets the join
    multiplier 1, such a child of an index reader gets the table multiplier 1, and a
    child of ShuffleReceiver gets the shuffle multiplier 1.
  \<^item> Under Apply the first child tagged \<^verbatim>\<open>build\<close> is analysed with the apply multiplier 1,
    and the first child tagged \<^verbatim>\<open>probe\<close> with the state derived from the analysed build
    child; every other child is left as it was, without a duration.
  \<^item> The whole pass returns the main tree as \<^verbatim>\<open>analyzeDurationNode\<close> left it, with the
    duration field of its root set to the text of the root's own time.
\<close>

theorem analyzeDurationNode_children:
  "(analyzeDurationNode L node c = Inr (d, node1) \<longrightarrow>
     (\<exists>c1 sub.
        getConcurrency node (getOperatorType node) c = Inr c1
      \<and> d = max (attributedDuration L node c) sub
      \<and> (\<forall>kvs. node = JObj kvs \<longrightarrow> Get node1 Duration = JStr (durationString L d))
      \<and> (\<forall>t. MustString (GetPath node [RootBasicExecInfo, Time]) \<noteq> []
              \<and> parseDuration L (MustString (GetPath node [RootBasicExecInfo, Time])) = Some t
            \<longrightarrow> attributedDuration L node c
              = (case parseDuration L (durationString L (toInt L (fdiv L (ofInt L t)
                    (ofInt L (mul64 (mul64 (mul64 (joinConcurrency c) (tableConcurrency c))
                       (applyConcurrency c)) (shuffleConcurrency c)))))) of
                   None \<Rightarrow> 0 | Some own \<Rightarrow> own))
      \<and> (MustArray (Get node Children) = [] \<longrightarrow> sub = 0)
      \<and> (MustArray (Get node Children) \<noteq> [] \<longrightarrow>
          (\<exists>durations xs1.
             Get node1 Children = JArr xs1
           \<and> length xs1 = length (MustArray (Get node Children))
           \<and> durations \<noteq> [] \<and> sub = Max (set durations) \<and> (\<forall>x\<in>set durations. x \<le> d)
           \<and> (getOperatorType node \<noteq> Apply \<longrightarrow>
                length durations = length (MustArray (Get node Children))
                \<and> (\<forall>i<length (MustArray (Get node Children)).
                     analyzeDurationNode L (MustArray (Get node Children) ! i)
                       (if (getOperatorType node = IndexJoin
                            \<or> getOperatorType node = IndexMergeJoin
                            \<or> getOperatorType node = IndexHashJoin)
                           \<and> MustString (Get (MustArray (Get node Children) ! i) DriverSide)
                               \<noteq> ''probe''
                        then c1\<lparr>joinConcurrency := 1\<rparr>
                        else if (getOperatorType node = IndexLookUpReader
                            \<or> getOperatorType node = IndexMergeReader)
                           \<and> MustString (Get (MustArray (Get node Children) ! i) DriverSide)
                               \<noteq> ''probe''
                        then c1\<lparr>tableConcurrency := 1\<rparr>
                        else if getOperatorType node = ShuffleReceiver
                        then c1\<lparr>shuffleConcurrency := 1\<rparr>
                        else c1)
                     = Inr (durations ! i, xs1 ! i)))
           \<and> (getOperatorType node = Apply \<longrightarrow>
                (case firstIndex (\<lambda>n. MustString (Get n DriverSide) = ''build'')
                        (MustArray (Get node Children)) of
                   None \<Rightarrow>
                     (case firstIndex (\<lambda>n. MustString (Get n DriverSide) = ''probe'')
                             (MustArray (Get node Children)) of
                        None \<Rightarrow> False
                      | Some j \<Rightarrow> \<exists>d2 n2.
                          analyzeDurationNode L (MustArray (Get node Children) ! j) c1
                            = Inr (d2, n2)
                          \<and> durations = [d2]
                          \<and> xs1 = (MustArray (Get node Children))[j := n2])
                 | Some i \<Rightarrow> \<exists>d1 n1 c2.
                     analyzeDurationNode L (MustArray (Get node Children) ! i)
                       (c1\<lparr>applyConcurrency := 1\<rparr>) = Inr (d1, n1)
                     \<and> probeConcurrency L n1 c1 = Inr c2
                     \<and> (case firstIndex (\<lambda>n. MustString (Get n DriverSide) = ''probe'')
                               (MustArray (Get node Children)) of
                          None \<Rightarrow>
                            durations = [d1] \<and> xs1 = (MustArray (Get node Children))[i := n1]
                        | Some j \<Rightarrow> \<exists>d2 n2.
                            analyzeDurationNode L (MustArray (Get node Children) ! j) c2
                              = Inr (d2, n2)
                            \<and> durations = [d1, d2]
                            \<and> xs1 = (MustArray (Get node Children))[i := n1, j := n2])))))))
   \<and> (analyzeDuration L vp = Inr vp1 \<and> Get vp MainTree = JObj kvs0 \<longrightarrow>
        (\<exists>d0 main1.
           analyzeDurationNode L (Get vp MainTree) newConcurrency = Inr (d0, main1)
         \<and> Get vp1 MainTree
             = Set Duration
                 (JStr (MustString (GetPath (Get vp MainTree) [RootBasicExecInfo, Time])))
                 main1))"
proof (intro conjI impI)
  assume a: "analyzeDurationNode L node c = Inr (d, node1)"
  from analyzeDurationNode_Inr [OF a] obtain c1 sub children1 where
    c1: "getConcurrency node (getOperatorType node) c = Inr c1" and
    sub: "analyzeDurationNodes L (Get node Children) (getOperatorType node) c1
      = Inr (sub, children1)" and
    d: "d = max (attributedDuration L node c) sub" and
    node1: "node1 = Set Duration (JStr (durationString L d)) (putBack Children children1 node)"
    by blast
  have field: "\<forall>kvs. node = JObj kvs \<longrightarrow> Get node1 Duration = JStr (durationString L d)"
    using analyzeDurationNode_field [OF a] by blast
  have timed: "\<forall>t. MustString (GetPath node [RootBasicExecInfo, Time]) \<noteq> []
              \<and> parseDuration L (MustString (GetPath node [RootBasicExecInfo, Time])) = Some t
            \<longrightarrow> attributedDuration L node c
              = (case parseDuration L (durationString L (toInt L (fdiv L (ofInt L t)
                    (ofInt L (mul64 (mul64 (mul64 (joinConcurrency c) (tableConcurrency c))
                       (applyConcurrency c)) (shuffleConcurrency c)))))) of
                   None \<Rightarrow> 0 | Some own \<Rightarrow> own)"
    using attributedDuration_timed [of node L _ c] by blast
  have empty: "MustArray (Get node Children) = [] \<longrightarrow> sub = 0"
    using analyzeDurationNodes_Inr [OF sub] by blast
  note nonempty = analyzeDurationNode_nonempty [OF c1 sub d node1]
  show "\<exists>c1 sub.
        getConcurrency node (getOperatorType node) c = Inr c1
      \<and> d = max (attributedDuration L node c) sub
      \<and> (\<forall>kvs. node = JObj kvs \<longrightarrow> Get node1 Duration = JStr (durationString L d))
      \<and> (\<forall>t. MustString (GetPath node [RootBasicExecInfo, Time]) \<noteq> []
              \<and> parseDuration L (MustString (GetPath node [RootBasicExecInfo, Time])) = Some t
            \<longrightarrow> attributedDuration L node c
              = (case parseDuration L (durationString L (toInt L (fdiv L (ofInt L t)
                    (ofInt L (mul64 (mul64 (mul64 (joinConcurrency c) (tableConcurrency c))
                       (applyConcurrency c)) (shuffleConcurrency c)))))) of
                   None \<Rightarrow> 0 | Some own \<Rightarrow> own))
      \<and> (MustArray (Get node Children) = [] \<longrightarrow> sub = 0)
      \<and> (MustArray (Get node Children) \<noteq> [] \<longrightarrow>
          (\<exists>durations xs1.
             Get node1 Children = JArr xs1
           \<and> length xs1 = length (MustArray (Get node Children))
           \<and> durations \<noteq> [] \<and> sub = Max (set durations) \<and> (\<forall>x\<in>set durations. x \<le> d)
           \<and> (getOperatorType node \<noteq> Apply \<longrightarrow>
                length durations = length (MustArray (Get node Children))
                \<and> (\<forall>i<length (MustArray (Get node Children)).
                     analyzeDurationNode L (MustArray (Get node Children) ! i)
                       (if (getOperatorType node = IndexJoin
                            \<or> getOperatorType node = IndexMergeJoin
                            \<or> getOperatorType node = IndexHashJoin)
                           \<and> MustString (Get (MustArray (Get node Children) ! i) DriverSide)
                               \<noteq> ''probe''
                        then c1\<lparr>joinConcurrency := 1\<rparr>
                        else if (getOperatorType node = IndexLookUpReader
                            \<or> getOperatorType node = IndexMergeReader)
                           \<and> MustString (Get (MustArray (Get node Children) ! i) DriverSide)
                               \<noteq> ''probe''
                        then c1\<lparr>tableConcurrency := 1\<rparr>
                        else if getOperatorType node = ShuffleReceiver
                        then c1\<lparr>shuffleConcurrency := 1\<rparr>
                        else c1)
                     = Inr (durations ! i, xs1 ! i)))
           \<and> (getOperatorType node = Apply \<longrightarrow>
                (case firstIndex (\<lambda>n. MustString (Get n DriverSide) = ''build'')
                        (MustArray (Get node Children)) of
                   None \<Rightarrow>
                     (case firstIndex (\<lambda>n. MustString (Get n DriverSide) = ''probe'')
                             (MustArray (Get node Children)) of
                        None \<Rightarrow> False
                      | Some j \<Rightarrow> \<exists>d2 n2.
                          analyzeDurationNode L (MustArray (Get node Children) ! j) c1
                            = Inr (d2, n2)
                          \<and> durations = [d2]
                          \<and> xs1 = (MustArray (Get node Children))[j := n2])
                 | Some i \<Rightarrow> \<exists>d1 n1 c2.
                     analyzeDurationNode L (MustArray (Get node Children) ! i)
                       (c1\<lparr>applyConcurrency := 1\<rparr>) = Inr (d1, n1)
                     \<and> probeConcurrency L n1 c1 = Inr c2
                     \<and> (case firstIndex (\<lambda>n. MustString (Get n DriverSide) = ''probe'')
                               (MustArray (Get node Children)) of
                          None \<Rightarrow>
                            durations = [d1] \<and> xs1 = (MustArray (Get node Children))[i := n1]
                        | Some j \<Rightarrow> \<exists>d2 n2.
                            analyzeDurationNode L (MustArray (Get node Children) ! j) c2
                              = Inr (d2, n2)
                            \<and> durations = [d1, d2]
                            \<and> xs1 = (MustArray (Get node Children))[i := n1, j := n2])))))"
    by (intro exI [of _ c1] exI [of _ sub] conjI impI)
      (rule c1, rule d, rule field, rule timed, rule empty [rule_format], assumption,
        erule nonempty)
next
  assume "analyzeDuration L vp = Inr vp1 \<and> Get vp MainTree = JObj kvs0"
  then show "\<exists>d0 main1.
           analyzeDurationNode L (Get vp MainTree) newConcurrency = Inr (d0, main1)
         \<and> Get vp1 MainTree
             = Set Duration
                 (JStr (MustString (GetPath (Get vp MainTree) [RootBasicExecInfo, Time])))
                 main1"
    using analyzeDuration_main [of L vp vp1 kvs0] by blast
qed

text \<open>
  An index join that reports 1s for itself, with inner concurrency 2, over a build child
  and a probe child that report 4s each; and the plan with that join as its main tree.
\<close>

definition joinBuild :: json where
  "joinBuild =
     JObj [(OperatorName, JStr ''TableReader_8''), (DriverSide, JStr ''build''),
           (RootBasicExecInfo, JObj [(Time, JStr ''4s'')])]"

definition joinProbe :: json where
  "joinProbe =
     JObj [(OperatorName, JStr ''TableReader_9''), (DriverSide, JStr ''probe''),
           (RootBasicExecInfo, JObj [(Time, JStr ''4s'')])]"

definition joinRoot :: json where
  "joinRoot =
     JObj [(OperatorName, JStr ''IndexJoin_5''),
           (RootBasicExecInfo, JObj [(Time, JStr ''1s'')]),
           (RootGroupExecInfo,
              JArr [JObj [(''inner'', JObj [(''concurrency'', JStr ''2''), (''task'', JStr ''4'')])]]),
           (Children, JArr [joinBuild, joinProbe])]"

definition joinPlan :: json where
  "joinPlan = JObj [(MainTree, joinRoot)]"

text \<open>
  An Apply node that reports 1s for itself, with concurrency 4, over a build child that
  read 3 rows in 1s, a probe child that reports 6s, and a child with no tag.
\<close>

definition applyBuild :: json where
  "applyBuild =
     JObj [(OperatorName, JStr ''TableReader_11''), (DriverSide, JStr ''build''),
           (ActRows, JStr ''3''), (RootBasicExecInfo, JObj [(Time, JStr ''1s'')])]"

definition applyProbe :: json where
  "applyProbe =
     JObj [(OperatorName, JStr ''TableReader_12''), (DriverSide, JStr ''probe''),
           (RootBasicExecInfo, JObj [(Time, JStr ''6s'')])]"

definition applyOther :: json where
  "applyOther =
     JObj [(OperatorName, JStr ''TableReader_13''),
           (RootBasicExecInfo, JObj [(Time, JStr ''9s'')])]"

definition applyRoot :: json where
  "applyRoot =
     JObj [(OperatorName, JStr ''Apply_10''),
           (RootBasicExecInfo, JObj [(Time, JStr ''1s'')]),
           (RootGroupExecInfo, JArr [JObj [(''Concurrency'', JStr ''4'')]]),
           (Children, JArr [applyBuild, applyProbe, applyOther])]"

lemma refParseDuration_4s: "refParseDuration ''4s'' = Some 4000000000"
  by (simp add: refParseDuration_def isDigit_def unitNanos_def)

lemma refParseDuration_6s: "refParseDuration ''6s'' = Some 6000000000"
  by (simp add: refParseDuration_def isDigit_def unitNanos_def)

lemma showNat_4: "showNat 4 = ''4''"
  by (subst showNat_digit) (simp_all add: digitChar_def)

lemma refDurationString_4s: "refDurationString 4000000000 = ''4s''"
  by (simp add: refDurationString_def fmtFrac_def showNat_4)

lemma atoi_4: "atoi ''4'' = 4"
  by (simp add: atoi_def isDigit_def)

lemma refParseFloat_3: "refParseFloat ''3'' = Some (Fin 3)"
  by (simp add: refParseFloat_def isDigit_def)

lemma upd_same: "map_of kvs k = Some v \<Longrightarrow> upd k v kvs = kvs"
  by (induction kvs) (auto split: if_splits)

lemma putBack_Get: "putBack k (Get n k) n = n"
  by (cases n) (auto simp: putBack_def Get_def upd_same split: option.splits)

lemma analyzeDurationNode_leaf:
  assumes "MustArray (Get node RootGroupExecInfo) = []" and "MustArray (Get node Children) = []"
    and "0 \<le> attributedDuration L node c"
  shows "analyzeDurationNode L node c
     = Inr (attributedDuration L node c,
         Set Duration (JStr (durationString L (attributedDuration L node c))) node)"
  using assms
  by (simp add: analyzeDurationNode.simps analyzeDurationNodes.simps getConcurrency_def
      putBack_Get Let_def)

lemma getOperatorDuratuon_refLib:
  assumes "refParseDuration ts = Some t" and "prod4 c = k" and "k \<noteq> 0"
  shows "getOperatorDuratuon refLib ts c
     = refDurationString (f64_toInt (Fin (of_int t / of_int k)))"
  using assms by (simp add: getOperatorDuratuon_def refLib_def ofInt_def)

lemma attributedDuration_refLib:
  assumes "MustString (GetPath node [RootBasicExecInfo, Time]) = ts" and "ts \<noteq> []"
    and "refParseDuration ts = Some t" and "prod4 c = k" and "k \<noteq> 0"
    and "f64_toInt (Fin (of_int t / of_int k)) = v"
    and "refDurationString v = s" and "refParseDuration s = Some v"
  shows "attributedDuration refLib node c = v"
proof -
  from getOperatorDuratuon_refLib [OF assms(3-5)] assms(6,7)
  have "getOperatorDuratuon refLib ts c = s" by simp
  moreover have "parseDuration refLib s = Some v"
    using assms(8) by (simp add: refLib_def)
  ultimately show ?thesis
    using assms(1,2) by (simp add: attributedDuration_def Let_def)
qed

lemma prod4_join: "prod4 (newConcurrency\<lparr>joinConcurrency := k\<rparr>) = wrap64 k"
  by (simp add: prod4_def newConcurrency_def mul64_def wrap64_def)

lemma prod4_apply: "prod4 (newConcurrency\<lparr>applyConcurrency := k\<rparr>) = wrap64 k"
  by (simp add: prod4_def newConcurrency_def mul64_def wrap64_def)

lemma durationString_refLib: "durationString refLib = refDurationString"
  by (simp add: refLib_def)

lemma attributedDuration_joinBuild:
  "attributedDuration refLib joinBuild (newConcurrency\<lparr>joinConcurrency := 1\<rparr>) = 4000000000"
  by (rule attributedDuration_refLib [where ts = "''4s''" and t = 4000000000 and k = 1
        and s = "''4s''"])
    (simp_all add: joinBuild_def Get_def MustString_def refParseDuration_4s prod4_join
      wrap64_def refDurationString_4s)

lemma attributedDuration_joinProbe:
  "attributedDuration refLib joinProbe (newConcurrency\<lparr>joinConcurrency := 2\<rparr>) = 2000000000"
  by (rule attributedDuration_refLib [where ts = "''4s''" and t = 4000000000 and k = 2
        and s = "''2s''"])
    (simp_all add: joinProbe_def Get_def MustString_def refParseDuration_4s prod4_join
      wrap64_def refDurationString_2s refParseDuration_2s)

lemma attributedDuration_joinRoot:
  "attributedDuration refLib joinRoot newConcurrency = 1000000000"
  by (rule attributedDuration_refLib [where ts = "''1s''" and t = 1000000000 and k = 1
        and s = "''1s''"])
    (simp_all add: joinRoot_def Get_def MustString_def refParseDuration_1s prod4_newConcurrency
      refDurationString_1s)

lemma analyzeDurationNode_joinBuild:
  "analyzeDurationNode refLib joinBuild (newConcurrency\<lparr>joinConcurrency := 1\<rparr>)
     = Inr (4000000000, Set Duration (JStr ''4s'') joinBuild)"
proof -
  have "MustArray (Get joinBuild RootGroupExecInfo) = []" "MustArray (Get joinBuild Children) = []"
    by (simp_all add: joinBuild_def Get_def MustArray_def)
  from analyzeDurationNode_leaf [OF this, of refLib "newConcurrency\<lparr>joinConcurrency := 1\<rparr>"]
  show ?thesis
    by (simp add: attributedDuration_joinBuild durationString_refLib refDurationString_4s)
qed

lemma analyzeDurationNode_joinProbe:
  "analyzeDurationNode refLib joinProbe (newConcurrency\<lparr>joinConcurrency := 2\<rparr>)
     = Inr (2000000000, Set Duration (JStr ''2s'') joinProbe)"
proof -
  have "MustArray (Get joinProbe RootGroupExecInfo) = []" "MustArray (Get joinProbe Children) = []"
    by (simp_all add: joinProbe_def Get_def MustArray_def)
  from analyzeDurationNode_leaf [OF this, of refLib "newConcurrency\<lparr>joinConcurrency := 2\<rparr>"]
  show ?thesis
    by (simp add: attributedDuration_joinProbe durationString_refLib refDurationString_2s)
qed

lemma getOperatorType_joinRoot: "getOperatorType joinRoot = IndexJoin"
  by (simp add: getOperatorType_def joinRoot_def Get_def MustString_def operatorOfName_def
      hasPrefix_def)

lemma getConcurrency_joinRoot:
  "getConcurrency joinRoot IndexJoin newConcurrency
     = Inr (newConcurrency\<lparr>joinConcurrency := 2\<rparr>)"
  by (simp add: getConcurrency_def joinRoot_def Get_def MustArray_def MustString_def
      kindConcurrency_def copStep_def atoi_2 atoi_4 atoi_empty mul64_def wrap64_def
      newConcurrency_def)

lemma Get_joinRoot_Children: "Get joinRoot Children = JArr [joinBuild, joinProbe]"
  by (simp add: joinRoot_def Get_def)

lemma side_joinBuild: "MustString (Get joinBuild DriverSide) = ''build''"
  by (simp add: joinBuild_def Get_def MustString_def)

lemma side_joinProbe: "MustString (Get joinProbe DriverSide) = ''probe''"
  by (simp add: joinProbe_def Get_def MustString_def)

lemma collectDurations_joinRoot:
  "collectDurations refLib [joinBuild, joinProbe] IndexJoin
       (newConcurrency\<lparr>joinConcurrency := 2\<rparr>)
     = Inr ([4000000000, 2000000000],
         [Set Duration (JStr ''4s'') joinBuild, Set Duration (JStr ''2s'') joinProbe])"
  by (simp add: collectDurations.simps childConcurrency_def side_joinBuild side_joinProbe
      analyzeDurationNode_joinBuild analyzeDurationNode_joinProbe)

lemma analyzeDurationNode_joinRoot:
  "analyzeDurationNode refLib joinRoot newConcurrency
     = Inr (4000000000,
         Set Duration (JStr ''4s'')
           (putBack Children
              (JArr [Set Duration (JStr ''4s'') joinBuild, Set Duration (JStr ''2s'') joinProbe])
              joinRoot))"
proof -
  have "maxDuration [4000000000, 2000000000] = Inr 4000000000"
    by (simp add: maxDuration_def)
  then have "analyzeDurationNodes refLib (JArr [joinBuild, joinProbe]) IndexJoin
      (newConcurrency\<lparr>joinConcurrency := 2\<rparr>)
       = Inr (4000000000,
           JArr [Set Duration (JStr ''4s'') joinBuild, Set Duration (JStr ''2s'') joinProbe])"
    by (simp add: analyzeDurationNodes.simps MustArray_def collectDurations_joinRoot)
  then show ?thesis
    by (simp add: analyzeDurationNode.simps attributedDuration_joinRoot
        getOperatorType_joinRoot getConcurrency_joinRoot Get_joinRoot_Children
        durationString_refLib refDurationString_4s)
qed


lemma analyzeDuration_joinPlan:
  "analyzeDuration refLib joinPlan =
     Inr (JObj [(MainTree,
       Set Duration (JStr ''1s'')
         (Set Duration (JStr ''4s'')
           (putBack Children
              (JArr [Set Duration (JStr ''4s'') joinBuild, Set Duration (JStr ''2s'') joinProbe])
              joinRoot)))])"
proof -
  have main: "Get joinPlan MainTree = joinRoot"
    by (simp add: joinPlan_def Get_def)
  have ts: "MustString (Get (Get joinRoot RootBasicExecInfo) Time) = ''1s''"
    by (simp add: joinRoot_def Get_def MustString_def)
  have put: "putBack MainTree v joinPlan = JObj [(MainTree, v)]" for v
    by (simp add: joinPlan_def putBack_def)
  have ctes: "analyzeDurationNodes refLib (Get (JObj [(MainTree, v)]) CteTrees) Default
      newConcurrency = Inr (0, JNull)" for v
    by (simp add: analyzeDurationNodes.simps Get_def MustArray_def)
  have stored: "putBack CteTrees JNull (JObj [(MainTree, v)]) = JObj [(MainTree, v)]" for v
    by (simp add: putBack_def)
  show ?thesis
    by (simp add: analyzeDuration_def main ts analyzeDurationNode_joinRoot put ctes stored)
qed

lemma joinRoot_analysed:
  "Set Duration (JStr ''4s'')
     (putBack Children
        (JArr [Set Duration (JStr ''4s'') joinBuild, Set Duration (JStr ''2s'') joinProbe])
        joinRoot)
   = JObj [(OperatorName, JStr ''IndexJoin_5''),
           (RootBasicExecInfo, JObj [(Time, JStr ''1s'')]),
           (RootGroupExecInfo,
              JArr [JObj [(''inner'', JObj [(''concurrency'', JStr ''2''), (''task'', JStr ''4'')])]]),
           (Children, JArr [
              JObj [(OperatorName, JStr ''TableReader_8''), (DriverSide, JStr ''build''),
                    (RootBasicExecInfo, JObj [(Time, JStr ''4s'')]), (Duration, JStr ''4s'')],
              JObj [(OperatorName, JStr ''TableReader_9''), (DriverSide, JStr ''probe''),
                    (RootBasicExecInfo, JObj [(Time, JStr ''4s'')]), (Duration, JStr ''2s'')]]),
           (Duration, JStr ''4s'')]"
  by (simp add: joinRoot_def joinBuild_def joinProbe_def Set_def putBack_def)

text \<open>The Apply node.\<close>

lemma attributedDuration_applyBuild:
  "attributedDuration refLib applyBuild (newConcurrency\<lparr>applyConcurrency := 1\<rparr>) = 1000000000"
  by (rule attributedDuration_refLib [where ts = "''1s''" and t = 1000000000 and k = 1
        and s = "''1s''"])
    (simp_all add: applyBuild_def Get_def MustString_def refParseDuration_1s prod4_apply
      wrap64_def refDurationString_1s)

lemma attributedDuration_applyProbe:
  "attributedDuration refLib applyProbe (newConcurrency\<lparr>applyConcurrency := 3\<rparr>) = 2000000000"
  by (rule attributedDuration_refLib [where ts = "''6s''" and t = 6000000000 and k = 3
        and s = "''2s''"])
    (simp_all add: applyProbe_def Get_def MustString_def refParseDuration_6s prod4_apply
      wrap64_def refDurationString_2s refParseDuration_2s)

lemma attributedDuration_applyRoot:
  "attributedDuration refLib applyRoot newConcurrency = 1000000000"
  by (rule attributedDuration_refLib [where ts = "''1s''" and t = 1000000000 and k = 1
        and s = "''1s''"])
    (simp_all add: applyRoot_def Get_def MustString_def refParseDuration_1s prod4_newConcurrency
      refDurationString_1s)

lemma analyzeDurationNode_applyBuild:
  "analyzeDurationNode refLib applyBuild (newConcurrency\<lparr>applyConcurrency := 1\<rparr>)
     = Inr (1000000000, Set Duration (JStr ''1s'') applyBuild)"
proof -
  have "MustArray (Get applyBuild RootGroupExecInfo) = []"
    "MustArray (Get applyBuild Children) = []"
    by (simp_all add: applyBuild_def Get_def MustArray_def)
  from analyzeDurationNode_leaf [OF this, of refLib "newConcurrency\<lparr>applyConcurrency := 1\<rparr>"]
  show ?thesis
    by (simp add: attributedDuration_applyBuild durationString_refLib refDurationString_1s)
qed

lemma analyzeDurationNode_applyProbe:
  "analyzeDurationNode refLib applyProbe (newConcurrency\<lparr>applyConcurrency := 3\<rparr>)
     = Inr (2000000000, Set Duration (JStr ''2s'') applyProbe)"
proof -
  have "MustArray (Get applyProbe RootGroupExecInfo) = []"
    "MustArray (Get applyProbe Children) = []"
    by (simp_all add: applyProbe_def Get_def MustArray_def)
  from analyzeDurationNode_leaf [OF this, of refLib "newConcurrency\<lparr>applyConcurrency := 3\<rparr>"]
  show ?thesis
    by (simp add: attributedDuration_applyProbe durationString_refLib refDurationString_2s)
qed

lemma probeConcurrency_applyBuild:
  "probeConcurrency refLib (Set Duration (JStr ''1s'') applyBuild)
       (newConcurrency\<lparr>applyConcurrency := 4\<rparr>)
     = Inr (newConcurrency\<lparr>applyConcurrency := 3\<rparr>)"
  by (simp add: probeConcurrency_def refLib_def applyBuild_def Set_def Get_def MustArray_def
      MustString_def refParseFloat_3 newConcurrency_def)

lemma getOperatorType_applyRoot: "getOperatorType applyRoot = Apply"
  by (simp add: getOperatorType_def applyRoot_def Get_def MustString_def operatorOfName_def
      hasPrefix_def)

lemma getConcurrency_applyRoot:
  "getConcurrency applyRoot Apply newConcurrency
     = Inr (newConcurrency\<lparr>applyConcurrency := 4\<rparr>)"
  by (simp add: getConcurrency_def applyRoot_def Get_def MustArray_def MustString_def
      kindConcurrency_def copStep_def atoi_4 atoi_empty mul64_def wrap64_def
      newConcurrency_def)

lemma Get_applyRoot_Children:
  "Get applyRoot Children = JArr [applyBuild, applyProbe, applyOther]"
  by (simp add: applyRoot_def Get_def)

lemma side_applyBuild: "MustString (Get applyBuild DriverSide) = ''build''"
  by (simp add: applyBuild_def Get_def MustString_def)

lemma side_applyProbe: "MustString (Get applyProbe DriverSide) = ''probe''"
  by (simp add: applyProbe_def Get_def MustString_def)

lemma side_applyOther: "MustString (Get applyOther DriverSide) = []"
  by (simp add: applyOther_def Get_def MustString_def)

lemma firstIndex_applyRoot:
  "firstIndex (\<lambda>n. MustString (Get n DriverSide) = ''build'')
     [applyBuild, applyProbe, applyOther] = Some 0"
  "firstIndex (\<lambda>n. MustString (Get n DriverSide) = ''probe'')
     [applyBuild, applyProbe, applyOther] = Some 1"
  by (simp_all add: side_applyBuild side_applyProbe)

lemma collectDurations_applyRoot:
  "collectDurations refLib [applyBuild, applyProbe, applyOther] Apply
       (newConcurrency\<lparr>applyConcurrency := 4\<rparr>)
     = Inr ([1000000000, 2000000000],
         [Set Duration (JStr ''1s'') applyBuild, Set Duration (JStr ''2s'') applyProbe,
          applyOther])"
proof -
  have state: "newConcurrency\<lparr>applyConcurrency := 4, applyConcurrency := 1\<rparr>
      = newConcurrency\<lparr>applyConcurrency := 1\<rparr>"
    by simp
  show ?thesis
    by (simp only: collectDurations.simps firstIndex_applyRoot)
      (simp add: state analyzeDurationNode_applyBuild probeConcurrency_applyBuild
        analyzeDurationNode_applyProbe)
qed

lemma analyzeDurationNode_applyRoot:
  "analyzeDurationNode refLib applyRoot newConcurrency
     = Inr (2000000000,
         Set Duration (JStr ''2s'')
           (putBack Children
              (JArr [Set Duration (JStr ''1s'') applyBuild, Set Duration (JStr ''2s'') applyProbe,
                     applyOther])
              applyRoot))"
proof -
  have "maxDuration [1000000000, 2000000000] = Inr 2000000000"
    by (simp add: maxDuration_def)
  then have "analyzeDurationNodes refLib (JArr [applyBuild, applyProbe, applyOther]) Apply
      (newConcurrency\<lparr>applyConcurrency := 4\<rparr>)
       = Inr (2000000000,
           JArr [Set Duration (JStr ''1s'') applyBuild, Set Duration (JStr ''2s'') applyProbe,
                 applyOther])"
    by (simp add: analyzeDurationNodes.simps MustArray_def collectDurations_applyRoot)
  then show ?thesis
    by (simp add: analyzeDurationNode.simps attributedDuration_applyRoot
        getOperatorType_applyRoot getConcurrency_applyRoot Get_applyRoot_Children
        durationString_refLib refDurationString_2s)
qed


text \<open>
  C1, as stated, fails at the root of the main tree. In the plan of the index join the
  own duration of the root is 1s and its children end with the durations 4s and 2s;
  \<^verbatim>\<open>analyzeDurationNode\<close> writes the maximum, 4s, to the root, and \<^verbatim>\<open>analyzeDuration\<close> then
  writes the root's own time over it: the final duration of the root is 1s, less than
  that of either child.
\<close>

theorem analyzeDuration_join_counterexample:
  "analyzeDuration refLib joinPlan =
     Inr (JObj [(MainTree,
       JObj [(OperatorName, JStr ''IndexJoin_5''),
             (RootBasicExecInfo, JObj [(Time, JStr ''1s'')]),
             (RootGroupExecInfo,
                JArr [JObj [(''inner'',
                  JObj [(''concurrency'', JStr ''2''), (''task'', JStr ''4'')])]]),
             (Children, JArr [
                JObj [(OperatorName, JStr ''TableReader_8''), (DriverSide, JStr ''build''),
                      (RootBasicExecInfo, JObj [(Time, JStr ''4s'')]), (Duration, JStr ''4s'')],
                JObj [(OperatorName, JStr ''TableReader_9''), (DriverSide, JStr ''probe''),
                      (RootBasicExecInfo, JObj [(Time, JStr ''4s'')]), (Duration, JStr ''2s'')]]),
             (Duration, JStr ''1s'')])])
   \<and> attributedDuration refLib joinRoot newConcurrency = 1000000000
   \<and> parseDuration refLib ''1s'' = Some 1000000000
   \<and> parseDuration refLib ''2s'' = Some 2000000000
   \<and> parseDuration refLib ''4s'' = Some 4000000000"
  by (simp add: analyzeDuration_joinPlan joinRoot_analysed attributedDuration_joinRoot)
    (simp add: Set_def refLib_def refParseDuration_1s refParseDuration_2s refParseDuration_4s)

text \<open>
  The amended statement at the index join, at the Apply node and at the plan of the index
  join. The join resolves the join multiplier 2; its build child is analysed with the
  join multiplier 1 and keeps its 4s, its probe child with the multiplier 2 and gets 2s;
  the join gets the maximum of 1s, 4s and 2s. The Apply node resolves the apply multiplier
  4; its build child is analysed with the multiplier 1, the 3 rows it read cap the
  multiplier at 3, the probe child gets 6s / 3, the child without a tag is left as it
  was, and the Apply node gets the maximum of 1s, 1s and 2s.
\<close>

theorem analyzeDurationNode_children_witness:
  "analyzeDurationNode refLib joinRoot newConcurrency
     = Inr (4000000000,
         Set Duration (JStr ''4s'')
           (putBack Children
              (JArr [Set Duration (JStr ''4s'') joinBuild, Set Duration (JStr ''2s'') joinProbe])
              joinRoot))
   \<and> getConcurrency joinRoot (getOperatorType joinRoot) newConcurrency
       = Inr (newConcurrency\<lparr>joinConcurrency := 2\<rparr>)
   \<and> attributedDuration refLib joinRoot newConcurrency = 1000000000
   \<and> (4000000000 :: int) = max 1000000000 (Max (set [4000000000, 2000000000]))
   \<and> Get (Set Duration (JStr ''4s'')
           (putBack Children
              (JArr [Set Duration (JStr ''4s'') joinBuild, Set Duration (JStr ''2s'') joinProbe])
              joinRoot)) Duration = JStr (durationString refLib 4000000000)
   \<and> Get (Set Duration (JStr ''4s'')
           (putBack Children
              (JArr [Set Duration (JStr ''4s'') joinBuild, Set Duration (JStr ''2s'') joinProbe])
              joinRoot)) Children
       = JArr [Set Duration (JStr ''4s'') joinBuild, Set Duration (JStr ''2s'') joinProbe]
   \<and> analyzeDurationNode refLib joinBuild
         (newConcurrency\<lparr>joinConcurrency := 2, joinConcurrency := 1\<rparr>)
       = Inr (4000000000, Set Duration (JStr ''4s'') joinBuild)
   \<and> analyzeDurationNode refLib joinProbe (newConcurrency\<lparr>joinConcurrency := 2\<rparr>)
       = Inr (2000000000, Set Duration (JStr ''2s'') joinProbe)
   \<and> analyzeDurationNode refLib applyRoot newConcurrency
       = Inr (2000000000,
           Set Duration (JStr ''2s'')
             (putBack Children
                (JArr [Set Duration (JStr ''1s'') applyBuild,
                       Set Duration (JStr ''2s'') applyProbe, applyOther])
                applyRoot))
   \<and> getConcurrency applyRoot (getOperatorType applyRoot) newConcurrency
       = Inr (newConcurrency\<lparr>applyConcurrency := 4\<rparr>)
   \<and> attributedDuration refLib applyRoot newConcurrency = 1000000000
   \<and> (2000000000 :: int) = max 1000000000 (Max (set [1000000000, 2000000000]))
   \<and> analyzeDurationNode refLib applyBuild
         (newConcurrency\<lparr>applyConcurrency := 4, applyConcurrency := 1\<rparr>)
       = Inr (1000000000, Set Duration (JStr ''1s'') applyBuild)
   \<and> probeConcurrency refLib (Set Duration (JStr ''1s'') applyBuild)
         (newConcurrency\<lparr>applyConcurrency := 4\<rparr>)
       = Inr (newConcurrency\<lparr>applyConcurrency := 3\<rparr>)
   \<and> analyzeDurationNode refLib applyProbe (newConcurrency\<lparr>applyConcurrency := 3\<rparr>)
       = Inr (2000000000, Set Duration (JStr ''2s'') applyProbe)
   \<and> Get (Set Duration (JStr ''2s'')
             (putBack Children
                (JArr [Set Duration (JStr ''1s'') applyBuild,
                       Set Duration (JStr ''2s'') applyProbe, applyOther])
                applyRoot)) Children
       = JArr ([applyBuild, applyProbe, applyOther]
                [0 := Set Duration (JStr ''1s'') applyBuild,
                 1 := Set Duration (JStr ''2s'') applyProbe])
   \<and> Get joinPlan MainTree = joinRoot
   \<and> analyzeDuration refLib joinPlan
       = Inr (JObj [(MainTree,
           Set Duration (JStr ''1s'')
             (Set Duration (JStr ''4s'')
               (putBack Children
                  (JArr [Set Duration (JStr ''4s'') joinBuild,
                         Set Duration (JStr ''2s'') joinProbe])
                  joinRoot)))])
   \<and> Get (JObj [(MainTree,
           Set Duration (JStr ''1s'')
             (Set Duration (JStr ''4s'')
               (putBack Children
                  (JArr [Set Duration (JStr ''4s'') joinBuild,
                         Set Duration (JStr ''2s'') joinProbe])
                  joinRoot)))]) MainTree
       = Set Duration
           (JStr (MustString (GetPath (Get joinPlan MainTree) [RootBasicExecInfo, Time])))
           (Set Duration (JStr ''4s'')
               (putBack Children
                  (JArr [Set Duration (JStr ''4s'') joinBuild,
                         Set Duration (JStr ''2s'') joinProbe])
                  joinRoot))"
proof -
  let ?join = "Set Duration (JStr ''4s'')
           (putBack Children
              (JArr [Set Duration (JStr ''4s'') joinBuild, Set Duration (JStr ''2s'') joinProbe])
              joinRoot)"
  let ?apply = "Set Duration (JStr ''2s'')
             (putBack Children
                (JArr [Set Duration (JStr ''1s'') applyBuild,
                       Set Duration (JStr ''2s'') applyProbe, applyOther])
                applyRoot)"
  let ?plan = "JObj [(MainTree, Set Duration (JStr ''1s'') ?join)]"
  have main: "Get joinPlan MainTree = joinRoot"
    by (simp add: joinPlan_def Get_def)
  have obj: "Get joinPlan MainTree
      = JObj [(OperatorName, JStr ''IndexJoin_5''),
           (RootBasicExecInfo, JObj [(Time, JStr ''1s'')]),
           (RootGroupExecInfo,
              JArr [JObj [(''inner'', JObj [(''concurrency'', JStr ''2''), (''task'', JStr ''4'')])]]),
           (Children, JArr [joinBuild, joinProbe])]"
    by (simp add: main joinRoot_def)
  have ts: "MustString (Get (Get joinRoot RootBasicExecInfo) Time) = ''1s''"
    by (simp add: joinRoot_def Get_def MustString_def)
  have state1: "newConcurrency\<lparr>joinConcurrency := 2, joinConcurrency := 1\<rparr>
      = newConcurrency\<lparr>joinConcurrency := 1\<rparr>"
    by simp
  have state2: "newConcurrency\<lparr>applyConcurrency := 4, applyConcurrency := 1\<rparr>
      = newConcurrency\<lparr>applyConcurrency := 1\<rparr>"
    by simp
  have field: "Get ?join Duration = JStr (durationString refLib 4000000000)"
    by (simp add: joinRoot_analysed Get_def durationString_refLib refDurationString_4s)
  have kids: "Get ?join Children
      = JArr [Set Duration (JStr ''4s'') joinBuild, Set Duration (JStr ''2s'') joinProbe]"
    by (simp add: Get_Set_other Get_putBack_present Get_joinRoot_Children)
  have kids2: "Get ?apply Children
      = JArr [Set Duration (JStr ''1s'') applyBuild, Set Duration (JStr ''2s'') applyProbe,
              applyOther]"
    by (simp add: Get_Set_other Get_putBack_present Get_applyRoot_Children)
  have plan: "Get ?plan MainTree = Set Duration (JStr ''1s'') ?join"
    by (simp add: Get_def)
  note t1 = analyzeDurationNode_children [where L = refLib and node = joinRoot
      and c = newConcurrency and d = 4000000000 and ?node1.0 = ?join
      and vp = joinPlan and ?vp1.0 = ?plan
      and ?kvs0.0 = "[(OperatorName, JStr ''IndexJoin_5''),
           (RootBasicExecInfo, JObj [(Time, JStr ''1s'')]),
           (RootGroupExecInfo,
              JArr [JObj [(''inner'', JObj [(''concurrency'', JStr ''2''), (''task'', JStr ''4'')])]]),
           (Children, JArr [joinBuild, joinProbe])]"]
  note t2 = analyzeDurationNode_children [where L = refLib and node = applyRoot
      and c = newConcurrency and d = 2000000000 and ?node1.0 = ?apply
      and vp = joinPlan and ?vp1.0 = ?plan and ?kvs0.0 = "[]"]
  from t1 t2 analyzeDurationNode_joinRoot analyzeDurationNode_applyRoot
    analyzeDuration_joinPlan obj
  show ?thesis
    by (simp only: main ts state1 state2 field kids kids2 plan GetPath.simps
        analyzeDurationNode_joinRoot analyzeDurationNode_applyRoot analyzeDuration_joinPlan
        getOperatorType_joinRoot getOperatorType_applyRoot getConcurrency_joinRoot
        getConcurrency_applyRoot attributedDuration_joinRoot attributedDuration_applyRoot
        analyzeDurationNode_joinBuild analyzeDurationNode_joinProbe
        analyzeDurationNode_applyBuild analyzeDurationNode_applyProbe
        probeConcurrency_applyBuild)
      simp
qed

end
